theory Spec2Isabelle
  imports Complex_Main
begin

section \<open>Dates\<close>

text \<open>
  The timetable works on JavaScript \<open>Date\<close> objects and on two kinds of strings: ISO
  timestamps written by \<open>toISOString()\<close> (the \<open>start\<close> and \<open>end\<close> of a block) and
  day keys written by \<open>format(date, 'yyyy-MM-dd')\<close>.

  \<^item> An \<open>instant\<close> is the time value of a \<open>Date\<close>: milliseconds since 1970-01-01T00:00Z.
    \<open>new Date(iso)\<close> and \<open>toISOString()\<close> are inverse to each other on valid dates, so
    a stored timestamp is identified with its time value.
  \<^item> A \<open>dayKey\<close> is the calendar day a \<open>'yyyy-MM-dd'\<close> string names, counted in days
    since 1970-01-01 (\<open>dayKeyOf\<close> below gives the count of a year, month and day).
  \<^item> Local time is UTC shifted by \<open>tz\<close> minutes (east of UTC positive), the same for
    every instant: zones that change their offset are outside the model.
  \<^item> Time values stay far inside the range of \<open>Date\<close> (\<open>8.64e15\<close> ms either side of
    the epoch), so no \<open>Date\<close> built from stored values is invalid. The one invalid
    number the dialog can produce, a \<open>NaN\<close> duration, is modelled (\<open>None\<close>).
\<close>

type_synonym instant = int
type_synonym dayKey = int

abbreviation msPerDay :: int where "msPerDay \<equiv> 86400000"
abbreviation msPerHour :: int where "msPerHour \<equiv> 3600000"
abbreviation msPerMinute :: int where "msPerMinute \<equiv> 60000"
abbreviation msPerSecond :: int where "msPerSecond \<equiv> 1000"

text \<open>Day of the month (1 to 31) of a day count, in the proleptic Gregorian calendar:
  the day is located in its 400-year era, then in its year counted from 1 March.\<close>

definition dayOfMonth :: "int \<Rightarrow> int" where
  "dayOfMonth n =
     (let z = n + 719468;
          doe = z mod 146097;
          yoe = (doe - doe div 1460 + doe div 36524 - doe div 146096) div 365;
          doy = doe - (365 * yoe + yoe div 4 - yoe div 100);
          mp = (5 * doy + 2) div 153
      in doy - (153 * mp + 2) div 5 + 1)"

text \<open>The day count of the date a \<open>'yyyy-MM-dd'\<close> string names.\<close>

definition dayKeyOf :: "int \<Rightarrow> int \<Rightarrow> int \<Rightarrow> dayKey" where
  "dayKeyOf y m d =
     (let y' = (if m \<le> 2 then y - 1 else y);
          era = y' div 400;
          yoe = y' - era * 400;
          doy = (153 * (if m > 2 then m - 3 else m + 9) + 2) div 5 + d - 1;
          doe = yoe * 365 + yoe div 4 - yoe div 100 + doy
      in era * 146097 + doe - 719468)"

text \<open>\<open>new Date(day)\<close> for a date-only string: midnight UTC of that day.\<close>

definition newDate :: "dayKey \<Rightarrow> instant" where
  "newDate day = day * msPerDay"

definition localTime :: "int \<Rightarrow> instant \<Rightarrow> int" where
  "localTime tz t = t + tz * msPerMinute"

definition localDay :: "int \<Rightarrow> instant \<Rightarrow> int" where
  "localDay tz t = localTime tz t div msPerDay"

definition getDate :: "int \<Rightarrow> instant \<Rightarrow> int" where
  "getDate tz t = dayOfMonth (localDay tz t)"

definition getDay :: "int \<Rightarrow> instant \<Rightarrow> int" where
  "getDay tz t = (localDay tz t + 4) mod 7"

definition getHours :: "int \<Rightarrow> instant \<Rightarrow> int" where
  "getHours tz t = (localTime tz t mod msPerDay) div msPerHour"

definition getMinutes :: "int \<Rightarrow> instant \<Rightarrow> int" where
  "getMinutes tz t = (localTime tz t mod msPerHour) div msPerMinute"

definition getSeconds :: "int \<Rightarrow> instant \<Rightarrow> int" where
  "getSeconds tz t = (localTime tz t mod msPerMinute) div msPerSecond"

definition getMilliseconds :: "int \<Rightarrow> instant \<Rightarrow> int" where
  "getMilliseconds tz t = localTime tz t mod msPerSecond"

text \<open>\<open>d.setHours(h, m, s, ms)\<close>: the local date of \<open>d\<close> is kept, the time of day is
  replaced; an hour outside 0..23 carries into the neighbouring days.\<close>

definition setHours4 :: "int \<Rightarrow> instant \<Rightarrow> int \<Rightarrow> int \<Rightarrow> int \<Rightarrow> int \<Rightarrow> instant" where
  "setHours4 tz t h m s ms =
     localDay tz t * msPerDay + h * msPerHour + m * msPerMinute + s * msPerSecond + ms
       - tz * msPerMinute"

text \<open>\<open>d.setHours(h, m, s)\<close>: the milliseconds of \<open>d\<close> are kept.\<close>

definition setHours :: "int \<Rightarrow> instant \<Rightarrow> int \<Rightarrow> int \<Rightarrow> int \<Rightarrow> instant" where
  "setHours tz t h m s = setHours4 tz t h m s (getMilliseconds tz t)"

text \<open>date-fns: \<open>addDays\<close> moves the local date, \<open>format(_, 'yyyy-MM-dd')\<close> names it,
  \<open>startOfWeek\<close> goes back to the last Sunday, 00:00 local.\<close>

definition addDays :: "instant \<Rightarrow> int \<Rightarrow> instant" where
  "addDays t n = t + n * msPerDay"

definition format_yyyyMMdd :: "int \<Rightarrow> instant \<Rightarrow> dayKey" where
  "format_yyyyMMdd tz t = localDay tz t"

definition startOfWeek :: "int \<Rightarrow> instant \<Rightarrow> instant" where
  "startOfWeek tz t =
     (let day = getDay tz t;
          diff = (if day < 0 then 7 else 0) + day - 0
      in setHours4 tz (addDays t (- diff)) 0 0 0 0)"

section \<open>The store\<close>

text \<open>The three record types of \<open>studyflow-store\<close>. Field names carry the record's
  prefix; an optional field is an \<open>option\<close>. Numbers that are only stored are reals.
  Strings that the code only stores and compares are Isabelle strings; the title of a time
  block, which the dialog trims, is a \<open>jsString\<close>: the list of its UTF-16 code units.\<close>

type_synonym jsString = "nat list"

datatype Priority = low | medium | high | urgent

record Task =
  task_id :: string
  task_title :: string
  task_description :: "string option"
  task_deadline :: string
  task_completed :: bool
  task_priority :: Priority
  task_label :: string
  task_estimatedTime :: real
  task_createdAt :: instant

record TimeBlock =
  tb_id :: string
  tb_taskId :: "string option"
  tb_title :: jsString
  tb_start :: instant
  tb_end :: instant
  tb_day :: dayKey
  tb_color :: "string option"

record StudySession =
  ss_id :: string
  ss_taskId :: "string option"
  ss_title :: string
  ss_startTime :: string
  ss_endTime :: string
  ss_duration :: real
  ss_productivity :: real
  ss_notes :: "string option"

record StudyFlowState =
  tasks :: "Task list"
  timeBlocks :: "TimeBlock list"
  studySessions :: "StudySession list"

text \<open>\<open>Omit<T, 'id'>\<close>: the record without the fields the store assigns.\<close>

record NewTask =
  nt_title :: string
  nt_description :: "string option"
  nt_deadline :: string
  nt_completed :: bool
  nt_priority :: Priority
  nt_label :: string
  nt_estimatedTime :: real

record NewTimeBlock =
  nb_taskId :: "string option"
  nb_title :: jsString
  nb_start :: instant
  nb_end :: instant
  nb_day :: dayKey
  nb_color :: "string option"

record NewStudySession =
  ns_taskId :: "string option"
  ns_title :: string
  ns_startTime :: string
  ns_endTime :: string
  ns_duration :: real
  ns_productivity :: real
  ns_notes :: "string option"

text \<open>\<open>Partial<Omit<T, 'id'>>\<close>: for each field \<open>None\<close> when the key is absent and
  \<open>Some v\<close> when it is supplied (for an optional field \<open>Some None\<close> supplies
  \<open>undefined\<close>).\<close>

record TaskUpdates =
  tu_title :: "string option"
  tu_description :: "string option option"
  tu_deadline :: "string option"
  tu_completed :: "bool option"
  tu_priority :: "Priority option"
  tu_label :: "string option"
  tu_estimatedTime :: "real option"

record TimeBlockUpdates =
  bu_taskId :: "string option option"
  bu_title :: "jsString option"
  bu_start :: "instant option"
  bu_end :: "instant option"
  bu_day :: "dayKey option"
  bu_color :: "string option option"

record StudySessionUpdates =
  su_taskId :: "string option option"
  su_title :: "string option"
  su_startTime :: "string option"
  su_endTime :: "string option"
  su_duration :: "real option"
  su_productivity :: "real option"
  su_notes :: "string option option"

text \<open>The spread \<open>{ ...x, ...updates }\<close>: a supplied field wins, the others and the id
  are those of \<open>x\<close>.\<close>

definition supplied :: "'a option \<Rightarrow> 'a \<Rightarrow> 'a" where
  "supplied u old = (case u of None \<Rightarrow> old | Some v \<Rightarrow> v)"

definition spreadTask :: "Task \<Rightarrow> TaskUpdates \<Rightarrow> Task" where
  "spreadTask task updates =
     \<lparr> task_id = task_id task,
       task_title = supplied (tu_title updates) (task_title task),
       task_description = supplied (tu_description updates) (task_description task),
       task_deadline = supplied (tu_deadline updates) (task_deadline task),
       task_completed = supplied (tu_completed updates) (task_completed task),
       task_priority = supplied (tu_priority updates) (task_priority task),
       task_label = supplied (tu_label updates) (task_label task),
       task_estimatedTime = supplied (tu_estimatedTime updates) (task_estimatedTime task),
       task_createdAt = task_createdAt task \<rparr>"

definition spreadTimeBlock :: "TimeBlock \<Rightarrow> TimeBlockUpdates \<Rightarrow> TimeBlock" where
  "spreadTimeBlock block updates =
     \<lparr> tb_id = tb_id block,
       tb_taskId = supplied (bu_taskId updates) (tb_taskId block),
       tb_title = supplied (bu_title updates) (tb_title block),
       tb_start = supplied (bu_start updates) (tb_start block),
       tb_end = supplied (bu_end updates) (tb_end block),
       tb_day = supplied (bu_day updates) (tb_day block),
       tb_color = supplied (bu_color updates) (tb_color block) \<rparr>"

definition spreadStudySession :: "StudySession \<Rightarrow> StudySessionUpdates \<Rightarrow> StudySession" where
  "spreadStudySession session updates =
     \<lparr> ss_id = ss_id session,
       ss_taskId = supplied (su_taskId updates) (ss_taskId session),
       ss_title = supplied (su_title updates) (ss_title session),
       ss_startTime = supplied (su_startTime updates) (ss_startTime session),
       ss_endTime = supplied (su_endTime updates) (ss_endTime session),
       ss_duration = supplied (su_duration updates) (ss_duration session),
       ss_productivity = supplied (su_productivity updates) (ss_productivity session),
       ss_notes = supplied (su_notes updates) (ss_notes session) \<rparr>"

text \<open>The actions of the store. \<open>set\<close> merges the returned slice into the state, so each
  action replaces one collection. The fresh \<open>uuidv4()\<close> and the clock of \<open>addTask\<close> are
  arguments; an \<open>add\<close> returns the id with the new state.\<close>

definition addTask :: "string \<Rightarrow> instant \<Rightarrow> NewTask \<Rightarrow> StudyFlowState \<Rightarrow> string \<times> StudyFlowState" where
  "addTask newId now task state =
     (newId, state\<lparr> tasks := tasks state @
        [\<lparr> task_id = newId,
           task_title = nt_title task,
           task_description = nt_description task,
           task_deadline = nt_deadline task,
           task_completed = nt_completed task,
           task_priority = nt_priority task,
           task_label = nt_label task,
           task_estimatedTime = nt_estimatedTime task,
           task_createdAt = now \<rparr>] \<rparr>)"

definition updateTask :: "string \<Rightarrow> TaskUpdates \<Rightarrow> StudyFlowState \<Rightarrow> StudyFlowState" where
  "updateTask i updates state =
     state\<lparr> tasks := map (\<lambda>task. if task_id task = i then spreadTask task updates else task)
                         (tasks state) \<rparr>"

definition completeTask :: "string \<Rightarrow> StudyFlowState \<Rightarrow> StudyFlowState" where
  "completeTask i state =
     state\<lparr> tasks := map (\<lambda>task. if task_id task = i then task\<lparr> task_completed := True \<rparr> else task)
                         (tasks state) \<rparr>"

definition deleteTask :: "string \<Rightarrow> StudyFlowState \<Rightarrow> StudyFlowState" where
  "deleteTask i state = state\<lparr> tasks := filter (\<lambda>task. task_id task \<noteq> i) (tasks state) \<rparr>"

definition addTimeBlock :: "string \<Rightarrow> NewTimeBlock \<Rightarrow> StudyFlowState \<Rightarrow> string \<times> StudyFlowState" where
  "addTimeBlock newId timeBlock state =
     (newId, state\<lparr> timeBlocks := timeBlocks state @
        [\<lparr> tb_id = newId,
           tb_taskId = nb_taskId timeBlock,
           tb_title = nb_title timeBlock,
           tb_start = nb_start timeBlock,
           tb_end = nb_end timeBlock,
           tb_day = nb_day timeBlock,
           tb_color = nb_color timeBlock \<rparr>] \<rparr>)"

definition updateTimeBlock :: "string \<Rightarrow> TimeBlockUpdates \<Rightarrow> StudyFlowState \<Rightarrow> StudyFlowState" where
  "updateTimeBlock i updates state =
     state\<lparr> timeBlocks :=
       map (\<lambda>block. if tb_id block = i then spreadTimeBlock block updates else block)
           (timeBlocks state) \<rparr>"

definition deleteTimeBlock :: "string \<Rightarrow> StudyFlowState \<Rightarrow> StudyFlowState" where
  "deleteTimeBlock i state =
     state\<lparr> timeBlocks := filter (\<lambda>block. tb_id block \<noteq> i) (timeBlocks state) \<rparr>"

definition addStudySession ::
  "string \<Rightarrow> NewStudySession \<Rightarrow> StudyFlowState \<Rightarrow> string \<times> StudyFlowState" where
  "addStudySession newId session state =
     (newId, state\<lparr> studySessions := studySessions state @
        [\<lparr> ss_id = newId,
           ss_taskId = ns_taskId session,
           ss_title = ns_title session,
           ss_startTime = ns_startTime session,
           ss_endTime = ns_endTime session,
           ss_duration = ns_duration session,
           ss_productivity = ns_productivity session,
           ss_notes = ns_notes session \<rparr>] \<rparr>)"

definition updateStudySession ::
  "string \<Rightarrow> StudySessionUpdates \<Rightarrow> StudyFlowState \<Rightarrow> StudyFlowState" where
  "updateStudySession i updates state =
     state\<lparr> studySessions :=
       map (\<lambda>session. if ss_id session = i then spreadStudySession session updates else session)
           (studySessions state) \<rparr>"

definition deleteStudySession :: "string \<Rightarrow> StudyFlowState \<Rightarrow> StudyFlowState" where
  "deleteStudySession i state =
     state\<lparr> studySessions := filter (\<lambda>session. ss_id session \<noteq> i) (studySessions state) \<rparr>"

section \<open>The week shown\<close>

text \<open>\<open>Timetable\<close> keeps \<open>weekStart\<close>, initially \<open>startOfWeek(new Date())\<close> and moved by
  seven days at a time; \<open>weekDates\<close> and \<open>weekTimeBlocks\<close> are derived from it, and each
  cell receives the blocks whose day key is the cell's.\<close>

definition DAYS_OF_WEEK_INDICES :: "int list" where
  "DAYS_OF_WEEK_INDICES = [0, 1, 2, 3, 4, 5, 6]"

definition weekDates :: "int \<Rightarrow> instant \<Rightarrow> dayKey list" where
  "weekDates tz weekStart =
     map (\<lambda>index. format_yyyyMMdd tz (addDays weekStart (int index)))
         [0 ..< length DAYS_OF_WEEK_INDICES]"

definition weekTimeBlocks :: "int \<Rightarrow> instant \<Rightarrow> TimeBlock list \<Rightarrow> TimeBlock list" where
  "weekTimeBlocks tz weekStart blocks =
     filter (\<lambda>block. tb_day block \<in> set (weekDates tz weekStart)) blocks"

definition handlePrevWeek :: "instant \<Rightarrow> instant" where
  "handlePrevWeek prev = addDays prev (- 7)"

definition handleNextWeek :: "instant \<Rightarrow> instant" where
  "handleNextWeek prev = addDays prev 7"

definition cellTimeBlocks :: "dayKey \<Rightarrow> TimeBlock list \<Rightarrow> TimeBlock list" where
  "cellTimeBlocks day blocks = filter (\<lambda>block. tb_day block = day) blocks"

section \<open>The cell\<close>

text \<open>\<open>TimeCell\<close> for a day key and an hour. \<open>currentHourStart\<close> is the cell's hour
  boundary, \<open>new Date(day)\<close> with \<open>setHours(hour, 0, 0, 0)\<close>.\<close>

definition currentHourStart :: "int \<Rightarrow> dayKey \<Rightarrow> int \<Rightarrow> instant" where
  "currentHourStart tz day hour = setHours4 tz (newDate day) hour 0 0 0"

definition blocksForCell :: "int \<Rightarrow> dayKey \<Rightarrow> int \<Rightarrow> TimeBlock list \<Rightarrow> TimeBlock list" where
  "blocksForCell tz day hour blocks =
     filter (\<lambda>block.
         getHours tz (tb_start block) = hour \<or>
         (tb_start block < currentHourStart tz day hour \<and>
          tb_end block > currentHourStart tz day hour))
       blocks"

definition isFirstOccurrence :: "int \<Rightarrow> int \<Rightarrow> TimeBlock \<Rightarrow> bool" where
  "isFirstOccurrence tz hour block = (getHours tz (tb_start block) = hour)"

definition spanningBlocks :: "int \<Rightarrow> dayKey \<Rightarrow> int \<Rightarrow> TimeBlock list \<Rightarrow> TimeBlock list" where
  "spanningBlocks tz day hour blocks =
     filter (\<lambda>block. getHours tz (tb_start block) \<noteq> hour) (blocksForCell tz day hour blocks)"

definition startingBlocksForCell :: "int \<Rightarrow> dayKey \<Rightarrow> int \<Rightarrow> TimeBlock list \<Rightarrow> TimeBlock list" where
  "startingBlocksForCell tz day hour blocks =
     filter (isFirstOccurrence tz hour) (blocksForCell tz day hour blocks)"

section \<open>Adding a block\<close>

text \<open>\<open>AddTimeBlockDialog.handleAdd\<close>, with \<open>onAdd\<close> bound to \<open>addTimeBlock\<close> as
  \<open>Timetable\<close> binds it. The duration is what \<open>parseInt\<close> left in the dialog's state: an
  integer, or \<open>NaN\<close> (\<open>None\<close>), which makes \<open>end\<close> an invalid date, on which
  \<open>toISOString()\<close> throws before \<open>onAdd\<close> is called. \<open>trim\<close> removes the white
  space and the line terminators of ECMAScript at both ends: tab, line feed, vertical tab,
  form feed, carriage return, space, no-break space, the other space separators of Unicode,
  the line and paragraph separators and the byte order mark, each one code unit.\<close>

datatype js_error = RangeError

definition isWhiteSpace :: "nat \<Rightarrow> bool" where
  "isWhiteSpace c =
     (c \<in> {0x09, 0x0A, 0x0B, 0x0C, 0x0D, 0x20, 0xA0, 0x1680, 0x2028, 0x2029, 0x202F, 0x205F,
            0x3000, 0xFEFF} \<or>
      (0x2000 \<le> c \<and> c \<le> 0x200A))"

definition trim :: "jsString \<Rightarrow> jsString" where
  "trim s = rev (dropWhile isWhiteSpace (rev (dropWhile isWhiteSpace s)))"

definition handleAdd ::
  "int \<Rightarrow> string \<Rightarrow> dayKey \<Rightarrow> int \<Rightarrow> jsString \<Rightarrow> int option \<Rightarrow> string \<Rightarrow> StudyFlowState
     \<Rightarrow> js_error + StudyFlowState" where
  "handleAdd tz newId selectedDay selectedHour title duration color state =
     (if trim title = [] then Inr state
      else case duration of
        None \<Rightarrow> Inl RangeError
      | Some d \<Rightarrow>
          (let day = selectedDay;
               start = setHours tz (newDate day) selectedHour 0 0;
               end0 = setHours tz start (getHours tz start + d) 0 0;
               end1 = (if getDate tz end0 \<noteq> getDate tz start
                       then setHours tz end0 23 59 59 else end0)
           in Inr (snd (addTimeBlock newId
                 \<lparr> nb_taskId = None, nb_title = title, nb_start = start, nb_end = end1,
                   nb_day = day, nb_color = Some color \<rparr> state))))"

section \<open>Moving a block\<close>

text \<open>The drag-end event as \<open>handleDragEnd\<close> reads it: the id of the dragged block and,
  when the drop has a target, the target's id and its \<open>data.current\<close>, of which the handler
  tests \<open>sortable\<close> for truth, \<open>day\<close> for truth (a day key is never the empty string)
  and \<open>hour\<close> for presence. The handler reads the blocks of the current store; the
  component's own \<open>activeId\<close> and \<open>activeTimeBlock\<close>, which it clears, and the toasts
  are not part of the store and are left out.\<close>

record OverData =
  od_sortable :: bool
  od_day :: "dayKey option"
  od_hour :: "int option"

record Over =
  over_id :: string
  over_data :: "OverData option"

record DragEndEvent =
  active_id :: string
  over :: "Over option"

text \<open>What \<open>useSortable({ id })\<close> attaches to a block, and what a cell carrying its day and
  hour would attach.\<close>

definition sortableData :: OverData where
  "sortableData = \<lparr> od_sortable = True, od_day = None, od_hour = None \<rparr>"

definition cellData :: "dayKey \<Rightarrow> int \<Rightarrow> OverData" where
  "cellData day hour = \<lparr> od_sortable = False, od_day = Some day, od_hour = Some hour \<rparr>"

definition findBlock :: "string \<Rightarrow> TimeBlock list \<Rightarrow> TimeBlock option" where
  "findBlock i blocks = find (\<lambda>block. tb_id block = i) blocks"

definition reposition :: "instant \<Rightarrow> instant \<Rightarrow> dayKey \<Rightarrow> TimeBlockUpdates" where
  "reposition s e d =
     \<lparr> bu_taskId = None, bu_title = None, bu_start = Some s, bu_end = Some e,
       bu_day = Some d, bu_color = None \<rparr>"

definition handleDragEnd :: "int \<Rightarrow> DragEndEvent \<Rightarrow> StudyFlowState \<Rightarrow> StudyFlowState" where
  "handleDragEnd tz event state =
     (case over event of
        None \<Rightarrow> state
      | Some ov \<Rightarrow>
          if active_id event \<noteq> over_id ov \<and>
             (case over_data ov of None \<Rightarrow> False | Some d \<Rightarrow> od_sortable d)
          then
            (case (findBlock (active_id event) (timeBlocks state),
                   findBlock (over_id ov) (timeBlocks state)) of
               (Some activeTimeBlock, Some overTimeBlock) \<Rightarrow>
                 (let activeStart = tb_start activeTimeBlock;
                      activeEnd = tb_end activeTimeBlock;
                      activeDurationMs = activeEnd - activeStart;
                      overStart = tb_start overTimeBlock;
                      overEnd = tb_end overTimeBlock;
                      overDurationMs = overEnd - overStart;
                      newActiveStart = overStart;
                      newActiveEnd = newActiveStart + activeDurationMs;
                      newOverStart = activeStart;
                      newOverEnd = newOverStart + overDurationMs
                  in updateTimeBlock (tb_id overTimeBlock)
                       (reposition newOverStart newOverEnd (tb_day activeTimeBlock))
                       (updateTimeBlock (tb_id activeTimeBlock)
                          (reposition newActiveStart newActiveEnd (tb_day overTimeBlock))
                          state))
             | _ \<Rightarrow> state)
          else
            (case over_data ov of
               None \<Rightarrow> state
             | Some d \<Rightarrow>
                 (case (od_day d, od_hour d) of
                    (Some day, Some hour) \<Rightarrow>
                      (case findBlock (active_id event) (timeBlocks state) of
                         None \<Rightarrow> state
                       | Some activeTimeBlock \<Rightarrow>
                           (let oldStart = tb_start activeTimeBlock;
                                oldEnd = tb_end activeTimeBlock;
                                durationMs = oldEnd - oldStart;
                                newStart = setHours tz (newDate day) hour 0 0;
                                newEnd0 = newStart + durationMs;
                                newEnd = (if getDate tz newEnd0 \<noteq> getDate tz newStart
                                          then setHours tz newEnd0 23 59 59 else newEnd0)
                            in updateTimeBlock (tb_id activeTimeBlock)
                                 (reposition newStart newEnd day) state))
                  | _ \<Rightarrow> state)))"

section \<open>Example data\<close>

text \<open>Concrete inputs for the worked examples below. \<open>utc day h m s\<close> is the instant
  of a wall-clock time on a day in UTC; in a zone \<open>tz\<close> minutes east the same wall-clock
  time is \<open>tz\<close> minutes earlier. \<open>blockA\<close> runs from 09:00 to 11:00 on 2024-01-01 and
  \<open>blockB\<close> from 14:00 to 15:00 on 2024-01-02, both as seen at offset 0; \<open>strayBlock\<close>
  is filed under 2024-01-02 but starts at 10:00 the day before; \<open>blockW\<close>, filed under
  2024-01-01, runs from 09:00 to 11:00 of that day on the clock of a zone five hours west
  of UTC (offset -300). \<open>fullStore\<close> holds one
  record or more in each collection. \<open>utf16\<close> gives the code units of an ASCII literal;
  \<open>blankTitle\<close> is a space, a no-break space and an em space.\<close>

definition utf16 :: "string \<Rightarrow> jsString" where
  "utf16 s = map of_char s"

definition blankTitle :: jsString where
  "blankTitle = [0x20, 0xA0, 0x2003]"

definition utc :: "dayKey \<Rightarrow> int \<Rightarrow> int \<Rightarrow> int \<Rightarrow> instant" where
  "utc day h m s = day * msPerDay + h * msPerHour + m * msPerMinute + s * msPerSecond"

definition emptyStore :: StudyFlowState where
  "emptyStore = \<lparr> tasks = [], timeBlocks = [], studySessions = [] \<rparr>"

definition blockA :: TimeBlock where
  "blockA = \<lparr> tb_id = ''a'', tb_taskId = None, tb_title = utf16 ''Algebra'',
     tb_start = utc (dayKeyOf 2024 1 1) 9 0 0, tb_end = utc (dayKeyOf 2024 1 1) 11 0 0,
     tb_day = dayKeyOf 2024 1 1, tb_color = Some ''bg-red-200'' \<rparr>"

definition blockB :: TimeBlock where
  "blockB = \<lparr> tb_id = ''b'', tb_taskId = Some ''t1'', tb_title = utf16 ''Essay'',
     tb_start = utc (dayKeyOf 2024 1 2) 14 0 0, tb_end = utc (dayKeyOf 2024 1 2) 15 0 0,
     tb_day = dayKeyOf 2024 1 2, tb_color = None \<rparr>"

definition strayBlock :: TimeBlock where
  "strayBlock = \<lparr> tb_id = ''c'', tb_taskId = None, tb_title = utf16 ''Revision'',
     tb_start = utc (dayKeyOf 2024 1 1) 10 0 0, tb_end = utc (dayKeyOf 2024 1 2) 11 0 0,
     tb_day = dayKeyOf 2024 1 2, tb_color = None \<rparr>"

definition blockW :: TimeBlock where
  "blockW = \<lparr> tb_id = ''w'', tb_taskId = None, tb_title = utf16 ''Physics'',
     tb_start = utc (dayKeyOf 2024 1 1) 14 0 0, tb_end = utc (dayKeyOf 2024 1 1) 16 0 0,
     tb_day = dayKeyOf 2024 1 1, tb_color = None \<rparr>"

definition oneBlock :: StudyFlowState where
  "oneBlock = \<lparr> tasks = [], timeBlocks = [blockA], studySessions = [] \<rparr>"

definition twoBlocks :: StudyFlowState where
  "twoBlocks = \<lparr> tasks = [], timeBlocks = [blockA, blockB], studySessions = [] \<rparr>"

definition taskT :: Task where
  "taskT = \<lparr> task_id = ''t1'', task_title = ''Essay draft'', task_description = None,
     task_deadline = ''2024-01-05'', task_completed = False, task_priority = high,
     task_label = ''History'', task_estimatedTime = 2, task_createdAt = utc (dayKeyOf 2024 1 1) 8 0 0 \<rparr>"

definition sessionS :: StudySession where
  "sessionS = \<lparr> ss_id = ''s1'', ss_taskId = Some ''t1'', ss_title = ''Reading'',
     ss_startTime = ''2024-01-01T09:00:00.000Z'', ss_endTime = ''2024-01-01T10:00:00.000Z'',
     ss_duration = 60, ss_productivity = 4, ss_notes = None \<rparr>"

definition fullStore :: StudyFlowState where
  "fullStore = \<lparr> tasks = [taskT], timeBlocks = [blockA, blockB], studySessions = [sessionS] \<rparr>"

definition dropOnBlock :: "string \<Rightarrow> string \<Rightarrow> DragEndEvent" where
  "dropOnBlock a b =
     \<lparr> active_id = a, over = Some \<lparr> over_id = b, over_data = Some sortableData \<rparr> \<rparr>"

definition dropOnCell :: "string \<Rightarrow> dayKey \<Rightarrow> int \<Rightarrow> DragEndEvent" where
  "dropOnCell a day hour =
     \<lparr> active_id = a, over = Some \<lparr> over_id = ''cell'', over_data = Some (cellData day hour) \<rparr> \<rparr>"

definition retitle :: TimeBlockUpdates where
  "retitle = \<lparr> bu_taskId = None, bu_title = Some (utf16 ''Linear algebra''), bu_start = None,
     bu_end = None, bu_day = None, bu_color = Some None \<rparr>"

definition markDone :: TaskUpdates where
  "markDone = \<lparr> tu_title = None, tu_description = None, tu_deadline = None,
     tu_completed = Some True, tu_priority = None, tu_label = None, tu_estimatedTime = None \<rparr>"

definition addNote :: StudySessionUpdates where
  "addNote = \<lparr> su_taskId = None, su_title = None, su_startTime = None, su_endTime = None,
     su_duration = None, su_productivity = None, su_notes = Some (Some ''revise'') \<rparr>"

section \<open>Calendar arithmetic\<close>

lemma localTime_setHours4:
  "localTime tz (setHours4 tz t h m s ms) =
     localDay tz t * msPerDay + h * msPerHour + m * msPerMinute + s * msPerSecond + ms"
  by (simp add: localTime_def setHours4_def)

lemma localDay_bounds:
  "localDay tz t * msPerDay \<le> localTime tz t \<and> localTime tz t < localDay tz t * msPerDay + msPerDay"
proof -
  have "localTime tz t = localTime tz t div msPerDay * msPerDay + localTime tz t mod msPerDay"
    by simp
  moreover have "0 \<le> localTime tz t mod msPerDay" by simp
  moreover have "localTime tz t mod msPerDay < msPerDay" by simp
  ultimately show ?thesis unfolding localDay_def by linarith
qed

lemma localDay_mono: "s \<le> e \<Longrightarrow> localDay tz s \<le> localDay tz e"
  unfolding localDay_def localTime_def by (simp add: zdiv_mono1)

lemma getMilliseconds_range: "0 \<le> getMilliseconds tz t \<and> getMilliseconds tz t < 1000"
  by (simp add: getMilliseconds_def)

lemma day_of_sum: "0 \<le> r \<Longrightarrow> r < msPerDay \<Longrightarrow> (q * msPerDay + r) div msPerDay = q"
  by (simp add: div_pos_pos_trivial)

lemma localDay_addDays: "localDay tz (addDays t n) = localDay tz t + n"
  by (simp add: localDay_def localTime_def addDays_def add.commute add.left_commute)

lemma localDay_newDate:
  assumes "0 \<le> tz" and "tz < 1440"
  shows "localDay tz (newDate day) = day"
proof -
  have "(day * msPerDay + tz * msPerMinute) div msPerDay = day + (tz * msPerMinute) div msPerDay"
    by (simp add: add.commute)
  moreover have "(tz * msPerMinute) div msPerDay = 0"
    using assms by (simp add: div_pos_pos_trivial)
  ultimately show ?thesis by (simp add: localDay_def localTime_def newDate_def)
qed

lemma localDay_startOfWeek:
  "localDay tz (startOfWeek tz anchor) = localDay tz anchor - getDay tz anchor"
proof -
  have "0 \<le> getDay tz anchor" by (simp add: getDay_def)
  then show ?thesis
    by (simp add: startOfWeek_def Let_def localDay_def[of tz "setHours4 _ _ _ _ _ _"]
        localTime_setHours4 localDay_addDays)
qed

lemma setHours_add_hours:
  assumes "localTime tz t mod msPerHour = 0"
  shows "setHours tz t (getHours tz t + d) 0 0 = t + d * msPerHour"
proof -
  let ?l = "localTime tz t"
  have ms: "getMilliseconds tz t = 0"
  proof -
    have "(?l mod msPerHour) mod msPerSecond = ?l mod msPerSecond"
      by (rule mod_mod_cancel) simp
    with assms show ?thesis by (simp add: getMilliseconds_def)
  qed
  have "(?l mod msPerDay) mod msPerHour = ?l mod msPerHour"
    by (rule mod_mod_cancel) simp
  then have h: "(?l mod msPerDay) div msPerHour * msPerHour = ?l mod msPerDay"
    using assms by (metis add.right_neutral div_mult_mod_eq)
  have "?l = ?l div msPerDay * msPerDay + ?l mod msPerDay" by simp
  then have "?l = localDay tz t * msPerDay + getHours tz t * msPerHour"
    using h by (simp add: localDay_def getHours_def)
  then show ?thesis
    unfolding setHours_def setHours4_def ms by (simp add: localTime_def algebra_simps)
qed

lemma localTime_cell:
  "localTime tz (setHours tz (newDate day) hour 0 0) = localDay tz (newDate day) * msPerDay + hour * msPerHour"
proof -
  have "getMilliseconds tz (newDate day) = 0"
    by (simp add: getMilliseconds_def localTime_def newDate_def)
  then show ?thesis by (simp add: setHours_def localTime_setHours4)
qed

lemma cell_on_the_hour: "localTime tz (setHours tz (newDate day) hour 0 0) mod msPerHour = 0"
  by (simp add: localTime_cell)

lemma newStart_is_cell_boundary:
  "setHours tz (newDate day) hour 0 0 = currentHourStart tz day hour"
  by (simp add: setHours_def currentHourStart_def getMilliseconds_def localTime_def newDate_def)

lemma getHours_currentHourStart:
  assumes "0 \<le> hour" and "hour < 24"
  shows "getHours tz (currentHourStart tz day hour) = hour"
proof -
  have "(localDay tz (newDate day) * msPerDay + hour * msPerHour) mod msPerDay = hour * msPerHour"
    using assms by (simp add: mod_pos_pos_trivial)
  then show ?thesis
    by (simp add: getHours_def currentHourStart_def localTime_setHours4)
qed

lemma getMinutes_currentHourStart: "getMinutes tz (currentHourStart tz day hour) = 0"
  by (simp add: getMinutes_def currentHourStart_def localTime_setHours4)

lemma getSeconds_currentHourStart: "getSeconds tz (currentHourStart tz day hour) = 0"
  by (simp add: getSeconds_def currentHourStart_def localTime_setHours4)

lemma currentHourStart_mono: "h < h' \<Longrightarrow> currentHourStart tz day h < currentHourStart tz day h'"
  by (simp add: currentHourStart_def setHours4_def)

lemma before_boundary_earlier_hour:
  assumes same: "localDay tz t = localDay tz (newDate day)"
    and before: "t < currentHourStart tz day hour"
  shows "getHours tz t < hour"
proof -
  let ?r = "localTime tz t mod msPerDay"
  have "localTime tz t = localDay tz t * msPerDay + ?r" by (simp add: localDay_def)
  moreover have "localTime tz t < localDay tz (newDate day) * msPerDay + hour * msPerHour"
    using before by (simp add: currentHourStart_def setHours4_def localTime_def)
  ultimately have r: "?r < hour * msPerHour" using same by simp
  have "?r div msPerHour * msPerHour \<le> ?r"
    by (metis div_mult_mod_eq add.commute le_add_same_cancel2 pos_mod_sign zero_less_numeral)
  with r have "?r div msPerHour * msPerHour < hour * msPerHour" by linarith
  then have "?r div msPerHour < hour" by simp
  then show ?thesis by (simp add: getHours_def)
qed

lemma clamp_after:
  assumes "s < e"
  shows "s < (if getDate tz e \<noteq> getDate tz s then setHours tz e 23 59 59 else e)"
proof (cases "getDate tz e \<noteq> getDate tz s")
  case False
  with assms show ?thesis by simp
next
  case True
  then have "localDay tz e \<noteq> localDay tz s" by (auto simp: getDate_def)
  moreover have "localDay tz s \<le> localDay tz e" using assms by (simp add: localDay_mono)
  ultimately have d: "localDay tz s + 1 \<le> localDay tz e" by simp
  have "localTime tz s < localDay tz s * msPerDay + msPerDay"
    using localDay_bounds by blast
  also have "\<dots> \<le> localDay tz e * msPerDay" using d by simp
  also have "\<dots> \<le> localTime tz (setHours tz e 23 59 59)"
    using getMilliseconds_range[of tz e] by (simp add: setHours_def localTime_setHours4)
  finally have "s < setHours tz e 23 59 59" by (simp add: localTime_def)
  with True show ?thesis by simp
qed

lemma clamp_lands_on_end_day:
  assumes "getDate tz e \<noteq> getDate tz s"
  shows "localDay tz (setHours tz e 23 59 59) = localDay tz e \<and> localDay tz e \<noteq> localDay tz s"
proof -
  have r: "0 \<le> 86399000 + getMilliseconds tz e" "86399000 + getMilliseconds tz e < msPerDay"
    using getMilliseconds_range[of tz e] by simp_all
  have "localTime tz (setHours tz e 23 59 59) =
        localDay tz e * msPerDay + (86399000 + getMilliseconds tz e)"
    by (simp add: setHours_def localTime_setHours4)
  then have "localDay tz (setHours tz e 23 59 59) =
        (localDay tz e * msPerDay + (86399000 + getMilliseconds tz e)) div msPerDay"
    by (simp add: localDay_def)
  also have "\<dots> = localDay tz e" using r by (rule day_of_sum)
  finally show ?thesis using assms by (auto simp: getDate_def)
qed

lemma boundary_east_of_utc:
  assumes "0 \<le> tz" and "tz < 1440"
  shows "localTime tz (currentHourStart tz day hour) = day * msPerDay + hour * msPerHour"
  using assms by (simp add: currentHourStart_def localTime_setHours4 localDay_newDate)

lemma boundary_west_of_utc:
  assumes "- 1440 \<le> tz" and "tz < 0"
  shows "localTime tz (currentHourStart tz day hour) = (day - 1) * msPerDay + hour * msPerHour"
proof -
  have "(day * msPerDay + tz * msPerMinute) div msPerDay =
        ((day - 1) * msPerDay + (msPerDay + tz * msPerMinute)) div msPerDay"
    by (simp add: algebra_simps)
  also have "\<dots> = day - 1"
    using assms by (intro day_of_sum) simp_all
  finally have "localDay tz (newDate day) = day - 1"
    by (simp add: localDay_def localTime_def newDate_def)
  then show ?thesis by (simp add: currentHourStart_def localTime_setHours4)
qed

lemma before_iff_local: "s < t \<longleftrightarrow> localTime tz s < localTime tz t"
  by (simp add: localTime_def)

lemma getHours_local:
  assumes "localTime tz t = day * msPerDay + h * msPerHour" and "0 \<le> h" and "h < 24"
  shows "getHours tz t = h"
proof -
  have "(day * msPerDay + h * msPerHour) mod msPerDay = h * msPerHour"
    using assms(2,3) by (simp add: mod_pos_pos_trivial)
  then show ?thesis by (simp add: getHours_def assms(1))
qed

lemma weekDates_list:
  "weekDates tz weekStart =
     [localDay tz weekStart, localDay tz weekStart + 1, localDay tz weekStart + 2,
      localDay tz weekStart + 3, localDay tz weekStart + 4, localDay tz weekStart + 5,
      localDay tz weekStart + 6]"
  by (simp add: weekDates_def DAYS_OF_WEEK_INDICES_def format_yyyyMMdd_def localDay_addDays
      upt_rec[of 0] upt_rec[of 1] upt_rec[of 2] upt_rec[of 3] upt_rec[of 4] upt_rec[of 5] upt_rec[of 6])

lemma week_navigation:
  "weekDates tz (handleNextWeek weekStart) = map (\<lambda>day. day + 7) (weekDates tz weekStart) \<and>
   weekDates tz (handlePrevWeek weekStart) = map (\<lambda>day. day - 7) (weekDates tz weekStart)"
  by (simp add: weekDates_list handleNextWeek_def handlePrevWeek_def localDay_addDays)

text \<open>
  The days of the examples: 2024-01-01 is day 19723, and the days from 2023-12-31 to
  2024-01-04 have the days of the month 31, 1, 2, 3 and 4.
\<close>

lemma dayKeyOf_examples:
  "dayKeyOf 2024 1 1 = 19723" "dayKeyOf 2024 1 2 = 19724" "dayKeyOf 2024 1 3 = 19725"
  "dayKeyOf 2024 1 4 = 19726" "dayKeyOf 2023 12 31 = 19722"
  by (simp_all add: dayKeyOf_def)

lemma dayOfMonth_examples:
  "dayOfMonth 19723 = 1" "dayOfMonth 19724 = 2" "dayOfMonth 19725 = 3" "dayOfMonth 19726 = 4"
  "dayOfMonth 19722 = 31"
  unfolding dayOfMonth_def Let_def by simp_all

lemmas date_defs =
  currentHourStart_def setHours_def setHours4_def getMilliseconds_def getHours_def getDate_def
  localDay_def localTime_def newDate_def utc_def dayKeyOf_examples dayOfMonth_examples

section \<open>Looking blocks up after an update\<close>

lemma tb_id_spreadTimeBlock: "tb_id (spreadTimeBlock block updates) = tb_id block"
  by (simp add: spreadTimeBlock_def)

lemma spread_reposition:
  "spreadTimeBlock block (reposition s e d) = block\<lparr> tb_start := s, tb_end := e, tb_day := d \<rparr>"
  by (simp add: spreadTimeBlock_def reposition_def supplied_def)

lemma find_map_update:
  "find (\<lambda>block. tb_id block = i)
        (map (\<lambda>block. if tb_id block = j then spreadTimeBlock block updates else block) blocks) =
   (if i = j then map_option (\<lambda>block. spreadTimeBlock block updates)
                     (find (\<lambda>block. tb_id block = i) blocks)
    else find (\<lambda>block. tb_id block = i) blocks)"
  by (induction blocks) (auto simp: tb_id_spreadTimeBlock)

lemma findBlock_updateTimeBlock:
  "findBlock i (timeBlocks (updateTimeBlock j updates state)) =
   (if i = j then map_option (\<lambda>block. spreadTimeBlock block updates)
                     (findBlock i (timeBlocks state))
    else findBlock i (timeBlocks state))"
  by (simp add: findBlock_def updateTimeBlock_def find_map_update)

lemma findBlock_id: "findBlock i blocks = Some block \<Longrightarrow> tb_id block = i"
  by (auto simp: findBlock_def find_Some_iff)

lemma findBlock_mem: "findBlock i blocks = Some block \<Longrightarrow> block \<in> set blocks"
  by (auto simp: findBlock_def find_Some_iff)

lemma map_no_match: "\<forall>x\<in>set xs. \<not> P x \<Longrightarrow> map (\<lambda>x. if P x then f x else x) xs = xs"
  by (induction xs) auto

lemma filter_no_match: "\<forall>x\<in>set xs. \<not> P x \<Longrightarrow> filter (\<lambda>x. \<not> P x) xs = xs"
  by (induction xs) auto

section \<open>The branches of the handlers\<close>

text \<open>
  What \<open>handleDragEnd\<close> issues when a block is dropped on another block and when it is
  dropped on a cell, and the block \<open>handleAdd\<close> appends: it starts on the cell's hour
  boundary and lasts the requested number of hours before the check on the day.
\<close>

lemma handleDragEnd_swap:
  assumes "findBlock a (timeBlocks state) = Some A"
    and "findBlock b (timeBlocks state) = Some B"
    and "a \<noteq> b" and "od_sortable d"
  shows "handleDragEnd tz \<lparr> active_id = a, over = Some \<lparr> over_id = b, over_data = Some d \<rparr> \<rparr> state =
     updateTimeBlock b (reposition (tb_start A) (tb_start A + (tb_end B - tb_start B)) (tb_day A))
       (updateTimeBlock a (reposition (tb_start B) (tb_start B + (tb_end A - tb_start A)) (tb_day B))
          state)"
  using assms findBlock_id[OF assms(1)] findBlock_id[OF assms(2)]
  by (simp add: handleDragEnd_def Let_def)

lemma handleDragEnd_cell:
  assumes "findBlock a (timeBlocks state) = Some A"
    and "od_day d = Some day" and "od_hour d = Some hour"
    and "a = c \<or> \<not> od_sortable d"
  shows "handleDragEnd tz \<lparr> active_id = a, over = Some \<lparr> over_id = c, over_data = Some d \<rparr> \<rparr> state =
     updateTimeBlock a
       (reposition (currentHourStart tz day hour)
          (if getDate tz (currentHourStart tz day hour + (tb_end A - tb_start A)) \<noteq>
              getDate tz (currentHourStart tz day hour)
           then setHours tz (currentHourStart tz day hour + (tb_end A - tb_start A)) 23 59 59
           else currentHourStart tz day hour + (tb_end A - tb_start A))
          day)
       state"
  using assms findBlock_id[OF assms(1)]
  by (auto simp: handleDragEnd_def Let_def newStart_is_cell_boundary)

lemma handleAdd_block:
  assumes "trim title \<noteq> []"
  shows "handleAdd tz newId day hour title (Some d) color state =
     Inr (state\<lparr> timeBlocks := timeBlocks state @
       [\<lparr> tb_id = newId, tb_taskId = None, tb_title = title,
          tb_start = currentHourStart tz day hour,
          tb_end = (if getDate tz (currentHourStart tz day hour + d * msPerHour) \<noteq>
                       getDate tz (currentHourStart tz day hour)
                    then setHours tz (currentHourStart tz day hour + d * msPerHour) 23 59 59
                    else currentHourStart tz day hour + d * msPerHour),
          tb_day = day, tb_color = Some color \<rparr>] \<rparr>)"
proof -
  have "setHours tz (setHours tz (newDate day) hour 0 0)
          (getHours tz (setHours tz (newDate day) hour 0 0) + d) 0 0 =
        setHours tz (newDate day) hour 0 0 + d * msPerHour"
    by (rule setHours_add_hours) (rule cell_on_the_hour)
  then show ?thesis
    using assms
    by (simp add: handleAdd_def Let_def addTimeBlock_def newStart_is_cell_boundary)
qed

lemma blank_title_adds_nothing:
  "handleAdd tz newId day hour blankTitle duration color state = Inr state"
  by (simp add: handleAdd_def blankTitle_def trim_def isWhiteSpace_def)

lemma ordered_updateTimeBlock:
  assumes "\<forall>block\<in>set (timeBlocks state). tb_start block < tb_end block" and "s < e"
  shows "\<forall>block\<in>set (timeBlocks (updateTimeBlock i (reposition s e d) state)).
           tb_start block < tb_end block"
  using assms by (auto simp: updateTimeBlock_def spread_reposition)

lemma ordered_handleDragEnd:
  assumes inv: "\<forall>block\<in>set (timeBlocks state). tb_start block < tb_end block"
  shows "\<forall>block\<in>set (timeBlocks (handleDragEnd tz event state)). tb_start block < tb_end block"
proof (cases "over event")
  case None
  with inv show ?thesis by (simp add: handleDragEnd_def)
next
  case (Some ov)
  let ?swap = "active_id event \<noteq> over_id ov \<and>
               (case over_data ov of None \<Rightarrow> False | Some d \<Rightarrow> od_sortable d)"
  show ?thesis
  proof (cases ?swap)
    case True
    show ?thesis
    proof (cases "findBlock (active_id event) (timeBlocks state)")
      case None
      with Some True inv show ?thesis by (simp add: handleDragEnd_def)
    next
      case A: (Some A)
      show ?thesis
      proof (cases "findBlock (over_id ov) (timeBlocks state)")
        case None
        with Some True A inv show ?thesis by (simp add: handleDragEnd_def)
      next
        case B: (Some B)
        have a: "tb_start A < tb_end A" using inv findBlock_mem[OF A] by blast
        have b: "tb_start B < tb_end B" using inv findBlock_mem[OF B] by blast
        have "\<forall>block\<in>set (timeBlocks
                 (updateTimeBlock (tb_id B)
                    (reposition (tb_start A) (tb_start A + (tb_end B - tb_start B)) (tb_day A))
                    (updateTimeBlock (tb_id A)
                       (reposition (tb_start B) (tb_start B + (tb_end A - tb_start A)) (tb_day B))
                       state))). tb_start block < tb_end block"
          using a b by (intro ordered_updateTimeBlock inv) simp_all
        with Some True A B show ?thesis by (simp add: handleDragEnd_def Let_def)
      qed
    qed
  next
    case False
    show ?thesis
    proof (cases "over_data ov")
      case None
      with Some False inv show ?thesis by (auto simp: handleDragEnd_def)
    next
      case d: (Some d)
      show ?thesis
      proof (cases "od_day d")
        case None
        with Some False d inv show ?thesis by (auto simp: handleDragEnd_def)
      next
        case day: (Some day)
        show ?thesis
        proof (cases "od_hour d")
          case None
          with Some False d day inv show ?thesis by (auto simp: handleDragEnd_def)
        next
          case hour: (Some hour)
          show ?thesis
          proof (cases "findBlock (active_id event) (timeBlocks state)")
            case None
            with Some False d day hour inv show ?thesis by (auto simp: handleDragEnd_def)
          next
            case A: (Some A)
            let ?s = "setHours tz (newDate day) hour 0 0"
            let ?t = "?s + (tb_end A - tb_start A)"
            let ?e = "if getDate tz ?t \<noteq> getDate tz ?s then setHours tz ?t 23 59 59 else ?t"
            have "tb_start A < tb_end A" using inv findBlock_mem[OF A] by blast
            then have "?s < ?t" by simp
            then have "?s < ?e" by (rule clamp_after)
            then have "\<forall>block\<in>set (timeBlocks
                 (updateTimeBlock (tb_id A) (reposition ?s ?e day) state)).
                 tb_start block < tb_end block"
              by (intro ordered_updateTimeBlock inv)
            with Some False d day hour A show ?thesis
              by (auto simp: handleDragEnd_def Let_def)
          qed
        qed
      qed
    qed
  qed
qed

section \<open>The store's actions\<close>

text \<open>
  Claim C8. An update or a delete that names an id no record of the collection has returns
  the store as it was: the actions are total functions of the state and have no error
  result. This holds for the time blocks, the tasks (with \<open>completeTask\<close>) and the study
  sessions. An update keeps the length and the order of its collection, leaves every
  record with another id as it was, and in every record with the given id replaces
  exactly the fields the update supplies, keeping the id and the other fields.
\<close>

theorem unknown_id_is_no_op_and_update_merges:
  "(i \<notin> tb_id ` set (timeBlocks state) \<longrightarrow>
      updateTimeBlock i bu state = state \<and> deleteTimeBlock i state = state) \<and>
   (i \<notin> task_id ` set (tasks state) \<longrightarrow>
      updateTask i tu state = state \<and> completeTask i state = state \<and> deleteTask i state = state) \<and>
   (i \<notin> ss_id ` set (studySessions state) \<longrightarrow>
      updateStudySession i su state = state \<and> deleteStudySession i state = state) \<and>
   length (timeBlocks (updateTimeBlock i bu state)) = length (timeBlocks state) \<and>
   (\<forall>k < length (timeBlocks state).
      let old = timeBlocks state ! k; new = timeBlocks (updateTimeBlock i bu state) ! k
      in (tb_id old \<noteq> i \<longrightarrow> new = old) \<and>
         (tb_id old = i \<longrightarrow>
            tb_id new = i \<and>
            tb_taskId new = (case bu_taskId bu of None \<Rightarrow> tb_taskId old | Some v \<Rightarrow> v) \<and>
            tb_title new = (case bu_title bu of None \<Rightarrow> tb_title old | Some v \<Rightarrow> v) \<and>
            tb_start new = (case bu_start bu of None \<Rightarrow> tb_start old | Some v \<Rightarrow> v) \<and>
            tb_end new = (case bu_end bu of None \<Rightarrow> tb_end old | Some v \<Rightarrow> v) \<and>
            tb_day new = (case bu_day bu of None \<Rightarrow> tb_day old | Some v \<Rightarrow> v) \<and>
            tb_color new = (case bu_color bu of None \<Rightarrow> tb_color old | Some v \<Rightarrow> v))) \<and>
   length (tasks (updateTask i tu state)) = length (tasks state) \<and>
   (\<forall>k < length (tasks state).
      let old = tasks state ! k; new = tasks (updateTask i tu state) ! k
      in (task_id old \<noteq> i \<longrightarrow> new = old) \<and>
         (task_id old = i \<longrightarrow>
            task_id new = i \<and> task_createdAt new = task_createdAt old \<and>
            task_title new = (case tu_title tu of None \<Rightarrow> task_title old | Some v \<Rightarrow> v) \<and>
            task_description new =
              (case tu_description tu of None \<Rightarrow> task_description old | Some v \<Rightarrow> v) \<and>
            task_deadline new = (case tu_deadline tu of None \<Rightarrow> task_deadline old | Some v \<Rightarrow> v) \<and>
            task_completed new =
              (case tu_completed tu of None \<Rightarrow> task_completed old | Some v \<Rightarrow> v) \<and>
            task_priority new = (case tu_priority tu of None \<Rightarrow> task_priority old | Some v \<Rightarrow> v) \<and>
            task_label new = (case tu_label tu of None \<Rightarrow> task_label old | Some v \<Rightarrow> v) \<and>
            task_estimatedTime new =
              (case tu_estimatedTime tu of None \<Rightarrow> task_estimatedTime old | Some v \<Rightarrow> v))) \<and>
   length (studySessions (updateStudySession i su state)) = length (studySessions state) \<and>
   (\<forall>k < length (studySessions state).
      let old = studySessions state ! k; new = studySessions (updateStudySession i su state) ! k
      in (ss_id old \<noteq> i \<longrightarrow> new = old) \<and>
         (ss_id old = i \<longrightarrow>
            ss_id new = i \<and>
            ss_taskId new = (case su_taskId su of None \<Rightarrow> ss_taskId old | Some v \<Rightarrow> v) \<and>
            ss_title new = (case su_title su of None \<Rightarrow> ss_title old | Some v \<Rightarrow> v) \<and>
            ss_startTime new = (case su_startTime su of None \<Rightarrow> ss_startTime old | Some v \<Rightarrow> v) \<and>
            ss_endTime new = (case su_endTime su of None \<Rightarrow> ss_endTime old | Some v \<Rightarrow> v) \<and>
            ss_duration new = (case su_duration su of None \<Rightarrow> ss_duration old | Some v \<Rightarrow> v) \<and>
            ss_productivity new =
              (case su_productivity su of None \<Rightarrow> ss_productivity old | Some v \<Rightarrow> v) \<and>
            ss_notes new = (case su_notes su of None \<Rightarrow> ss_notes old | Some v \<Rightarrow> v)))"
proof -
  have blocks: "i \<notin> tb_id ` set (timeBlocks state) \<longrightarrow>
      updateTimeBlock i bu state = state \<and> deleteTimeBlock i state = state"
  proof
    assume "i \<notin> tb_id ` set (timeBlocks state)"
    then have n: "\<forall>block\<in>set (timeBlocks state). \<not> tb_id block = i" by auto
    show "updateTimeBlock i bu state = state \<and> deleteTimeBlock i state = state"
      by (simp add: updateTimeBlock_def deleteTimeBlock_def map_no_match[OF n] filter_no_match[OF n])
  qed
  have tasks: "i \<notin> task_id ` set (tasks state) \<longrightarrow>
      updateTask i tu state = state \<and> completeTask i state = state \<and> deleteTask i state = state"
  proof
    assume "i \<notin> task_id ` set (tasks state)"
    then have n: "\<forall>task\<in>set (tasks state). \<not> task_id task = i" by auto
    show "updateTask i tu state = state \<and> completeTask i state = state \<and> deleteTask i state = state"
      by (simp add: updateTask_def completeTask_def deleteTask_def
          map_no_match[OF n] filter_no_match[OF n])
  qed
  have sessions: "i \<notin> ss_id ` set (studySessions state) \<longrightarrow>
      updateStudySession i su state = state \<and> deleteStudySession i state = state"
  proof
    assume "i \<notin> ss_id ` set (studySessions state)"
    then have n: "\<forall>session\<in>set (studySessions state). \<not> ss_id session = i" by auto
    show "updateStudySession i su state = state \<and> deleteStudySession i state = state"
      by (simp add: updateStudySession_def deleteStudySession_def
          map_no_match[OF n] filter_no_match[OF n])
  qed
  have mergeBlocks: "length (timeBlocks (updateTimeBlock i bu state)) = length (timeBlocks state) \<and>
   (\<forall>k < length (timeBlocks state).
      let old = timeBlocks state ! k; new = timeBlocks (updateTimeBlock i bu state) ! k
      in (tb_id old \<noteq> i \<longrightarrow> new = old) \<and>
         (tb_id old = i \<longrightarrow>
            tb_id new = i \<and>
            tb_taskId new = (case bu_taskId bu of None \<Rightarrow> tb_taskId old | Some v \<Rightarrow> v) \<and>
            tb_title new = (case bu_title bu of None \<Rightarrow> tb_title old | Some v \<Rightarrow> v) \<and>
            tb_start new = (case bu_start bu of None \<Rightarrow> tb_start old | Some v \<Rightarrow> v) \<and>
            tb_end new = (case bu_end bu of None \<Rightarrow> tb_end old | Some v \<Rightarrow> v) \<and>
            tb_day new = (case bu_day bu of None \<Rightarrow> tb_day old | Some v \<Rightarrow> v) \<and>
            tb_color new = (case bu_color bu of None \<Rightarrow> tb_color old | Some v \<Rightarrow> v)))"
    by (simp add: updateTimeBlock_def Let_def spreadTimeBlock_def supplied_def)
  have mergeTasks: "length (tasks (updateTask i tu state)) = length (tasks state) \<and>
   (\<forall>k < length (tasks state).
      let old = tasks state ! k; new = tasks (updateTask i tu state) ! k
      in (task_id old \<noteq> i \<longrightarrow> new = old) \<and>
         (task_id old = i \<longrightarrow>
            task_id new = i \<and> task_createdAt new = task_createdAt old \<and>
            task_title new = (case tu_title tu of None \<Rightarrow> task_title old | Some v \<Rightarrow> v) \<and>
            task_description new =
              (case tu_description tu of None \<Rightarrow> task_description old | Some v \<Rightarrow> v) \<and>
            task_deadline new = (case tu_deadline tu of None \<Rightarrow> task_deadline old | Some v \<Rightarrow> v) \<and>
            task_completed new =
              (case tu_completed tu of None \<Rightarrow> task_completed old | Some v \<Rightarrow> v) \<and>
            task_priority new = (case tu_priority tu of None \<Rightarrow> task_priority old | Some v \<Rightarrow> v) \<and>
            task_label new = (case tu_label tu of None \<Rightarrow> task_label old | Some v \<Rightarrow> v) \<and>
            task_estimatedTime new =
              (case tu_estimatedTime tu of None \<Rightarrow> task_estimatedTime old | Some v \<Rightarrow> v)))"
    by (simp add: updateTask_def Let_def spreadTask_def supplied_def)
  have mergeSessions:
   "length (studySessions (updateStudySession i su state)) = length (studySessions state) \<and>
   (\<forall>k < length (studySessions state).
      let old = studySessions state ! k; new = studySessions (updateStudySession i su state) ! k
      in (ss_id old \<noteq> i \<longrightarrow> new = old) \<and>
         (ss_id old = i \<longrightarrow>
            ss_id new = i \<and>
            ss_taskId new = (case su_taskId su of None \<Rightarrow> ss_taskId old | Some v \<Rightarrow> v) \<and>
            ss_title new = (case su_title su of None \<Rightarrow> ss_title old | Some v \<Rightarrow> v) \<and>
            ss_startTime new = (case su_startTime su of None \<Rightarrow> ss_startTime old | Some v \<Rightarrow> v) \<and>
            ss_endTime new = (case su_endTime su of None \<Rightarrow> ss_endTime old | Some v \<Rightarrow> v) \<and>
            ss_duration new = (case su_duration su of None \<Rightarrow> ss_duration old | Some v \<Rightarrow> v) \<and>
            ss_productivity new =
              (case su_productivity su of None \<Rightarrow> ss_productivity old | Some v \<Rightarrow> v) \<and>
            ss_notes new = (case su_notes su of None \<Rightarrow> ss_notes old | Some v \<Rightarrow> v)))"
    by (simp add: updateStudySession_def Let_def spreadStudySession_def supplied_def)
  from blocks tasks sessions mergeBlocks mergeTasks mergeSessions show ?thesis by blast
qed

theorem unknown_id_is_no_op_and_update_merges_witness:
  "''zzz'' \<notin> tb_id ` set (timeBlocks fullStore) \<and>
   ''zzz'' \<notin> task_id ` set (tasks fullStore) \<and>
   ''zzz'' \<notin> ss_id ` set (studySessions fullStore) \<and>
   updateTimeBlock ''zzz'' retitle fullStore = fullStore \<and>
   deleteTimeBlock ''zzz'' fullStore = fullStore \<and>
   updateTask ''zzz'' markDone fullStore = fullStore \<and>
   completeTask ''zzz'' fullStore = fullStore \<and>
   deleteTask ''zzz'' fullStore = fullStore \<and>
   updateStudySession ''zzz'' addNote fullStore = fullStore \<and>
   deleteStudySession ''zzz'' fullStore = fullStore \<and>
   (0::nat) < length (timeBlocks fullStore) \<and> tb_id (timeBlocks fullStore ! 0) = ''a'' \<and>
   (1::nat) < length (timeBlocks fullStore) \<and> tb_id (timeBlocks fullStore ! 1) \<noteq> ''a'' \<and>
   tb_title (timeBlocks (updateTimeBlock ''a'' retitle fullStore) ! 0) = utf16 ''Linear algebra'' \<and>
   tb_start (timeBlocks (updateTimeBlock ''a'' retitle fullStore) ! 0) = tb_start blockA \<and>
   tb_color (timeBlocks (updateTimeBlock ''a'' retitle fullStore) ! 0) = None \<and>
   timeBlocks (updateTimeBlock ''a'' retitle fullStore) ! 1 = blockB \<and>
   (0::nat) < length (tasks fullStore) \<and> task_id (tasks fullStore ! 0) = ''t1'' \<and>
   task_id (tasks fullStore ! 0) \<noteq> ''a'' \<and>
   task_completed (tasks (updateTask ''t1'' markDone fullStore) ! 0) \<and>
   task_title (tasks (updateTask ''t1'' markDone fullStore) ! 0) = ''Essay draft'' \<and>
   tasks (updateTask ''a'' markDone fullStore) ! 0 = taskT \<and>
   (0::nat) < length (studySessions fullStore) \<and> ss_id (studySessions fullStore ! 0) = ''s1'' \<and>
   ss_id (studySessions fullStore ! 0) \<noteq> ''a'' \<and>
   ss_notes (studySessions (updateStudySession ''s1'' addNote fullStore) ! 0) = Some ''revise'' \<and>
   ss_title (studySessions (updateStudySession ''s1'' addNote fullStore) ! 0) = ''Reading'' \<and>
   studySessions (updateStudySession ''a'' addNote fullStore) ! 0 = sessionS"
proof -
  have b: "''zzz'' \<notin> tb_id ` set (timeBlocks fullStore)"
    by (simp add: fullStore_def blockA_def blockB_def)
  have t: "''zzz'' \<notin> task_id ` set (tasks fullStore)" by (simp add: fullStore_def taskT_def)
  have s: "''zzz'' \<notin> ss_id ` set (studySessions fullStore)"
    by (simp add: fullStore_def sessionS_def)
  have l: "(0::nat) < length (timeBlocks fullStore) \<and> tb_id (timeBlocks fullStore ! 0) = ''a'' \<and>
           (1::nat) < length (timeBlocks fullStore) \<and> tb_id (timeBlocks fullStore ! 1) \<noteq> ''a'' \<and>
           (0::nat) < length (tasks fullStore) \<and> task_id (tasks fullStore ! 0) = ''t1'' \<and>
           task_id (tasks fullStore ! 0) \<noteq> ''a'' \<and>
           (0::nat) < length (studySessions fullStore) \<and>
           ss_id (studySessions fullStore ! 0) = ''s1'' \<and>
           ss_id (studySessions fullStore ! 0) \<noteq> ''a''"
    by (simp add: fullStore_def blockA_def blockB_def taskT_def sessionS_def)
  have r: "bu_title retitle = Some (utf16 ''Linear algebra'') \<and> bu_start retitle = None \<and>
           bu_color retitle = Some None \<and> tu_completed markDone = Some True \<and>
           tu_title markDone = None \<and> su_notes addNote = Some (Some ''revise'') \<and>
           su_title addNote = None"
    by (simp add: retitle_def markDone_def addNote_def)
  show ?thesis
    using b t s l r
      unknown_id_is_no_op_and_update_merges[of "''zzz''" fullStore retitle markDone addNote]
      unknown_id_is_no_op_and_update_merges[of "''a''" fullStore retitle markDone addNote]
      unknown_id_is_no_op_and_update_merges[of "''t1''" fullStore retitle markDone addNote]
      unknown_id_is_no_op_and_update_merges[of "''s1''" fullStore retitle markDone addNote]
    by (simp add: Let_def fullStore_def blockA_def blockB_def taskT_def sessionS_def)
qed

text \<open>
  Claim C10. The three actions on time blocks leave the tasks and the study sessions as
  they were, and the actions on tasks and on study sessions leave the time blocks as they
  were.
\<close>

theorem store_actions_frame:
  "tasks (snd (addTimeBlock n nb state)) = tasks state \<and>
   studySessions (snd (addTimeBlock n nb state)) = studySessions state \<and>
   tasks (updateTimeBlock i bu state) = tasks state \<and>
   studySessions (updateTimeBlock i bu state) = studySessions state \<and>
   tasks (deleteTimeBlock i state) = tasks state \<and>
   studySessions (deleteTimeBlock i state) = studySessions state \<and>
   timeBlocks (snd (addTask n now nt state)) = timeBlocks state \<and>
   timeBlocks (updateTask i tu state) = timeBlocks state \<and>
   timeBlocks (completeTask i state) = timeBlocks state \<and>
   timeBlocks (deleteTask i state) = timeBlocks state \<and>
   timeBlocks (snd (addStudySession n ns state)) = timeBlocks state \<and>
   timeBlocks (updateStudySession i su state) = timeBlocks state \<and>
   timeBlocks (deleteStudySession i state) = timeBlocks state"
  by (simp add: addTimeBlock_def updateTimeBlock_def deleteTimeBlock_def addTask_def
      updateTask_def completeTask_def deleteTask_def addStudySession_def
      updateStudySession_def deleteStudySession_def)

section \<open>The week projection\<close>

text \<open>
  Claim C9. For a week start and a collection of blocks, \<open>weekDates\<close> is the list of the
  seven consecutive day keys that begins with the local day of the week start, in that
  order, and \<open>weekTimeBlocks\<close> keeps, in their order, exactly the blocks whose day key is
  one of the seven. The week start that \<open>startOfWeek\<close> computes from an anchor lies on
  the Sunday on or before the anchor's local day. Both projections are functions of
  their arguments, so computing them again gives the same lists.
\<close>

theorem week_projection:
  "weekDates tz weekStart =
     [localDay tz weekStart, localDay tz weekStart + 1, localDay tz weekStart + 2,
      localDay tz weekStart + 3, localDay tz weekStart + 4, localDay tz weekStart + 5,
      localDay tz weekStart + 6] \<and>
   weekTimeBlocks tz weekStart blocks =
     filter (\<lambda>block. localDay tz weekStart \<le> tb_day block \<and>
                     tb_day block \<le> localDay tz weekStart + 6) blocks \<and>
   set (weekTimeBlocks tz weekStart blocks) =
     {block \<in> set blocks. tb_day block \<in> set (weekDates tz weekStart)} \<and>
   localDay tz (startOfWeek tz anchor) = localDay tz anchor - getDay tz anchor \<and>
   getDay tz (startOfWeek tz anchor) = 0 \<and>
   getDay tz anchor \<in> {0..6}"
proof -
  have f: "weekTimeBlocks tz weekStart blocks =
     filter (\<lambda>block. localDay tz weekStart \<le> tb_day block \<and>
                     tb_day block \<le> localDay tz weekStart + 6) blocks"
    unfolding weekTimeBlocks_def by (rule filter_cong) (auto simp: weekDates_list)
  have s: "set (weekTimeBlocks tz weekStart blocks) =
     {block \<in> set blocks. tb_day block \<in> set (weekDates tz weekStart)}"
    by (auto simp: weekTimeBlocks_def)
  have g: "getDay tz anchor \<in> {0..6}" by (simp add: getDay_def)
  have "(localDay tz anchor - (localDay tz anchor + 4) mod 7 + 4) mod 7 = 0"
    by presburger
  then have z: "getDay tz (startOfWeek tz anchor) = 0"
    by (simp add: getDay_def localDay_startOfWeek[unfolded getDay_def])
  from weekDates_list f s localDay_startOfWeek z g show ?thesis by blast
qed

section \<open>The cell resolver\<close>

lemma startingBlocksForCell_iff:
  "block \<in> set (startingBlocksForCell tz day hour blocks) \<longleftrightarrow>
      block \<in> set blocks \<and> getHours tz (tb_start block) = hour"
  by (auto simp: startingBlocksForCell_def blocksForCell_def isFirstOccurrence_def)

lemma spanningBlocks_iff:
  "block \<in> set (spanningBlocks tz day hour blocks) \<longleftrightarrow>
      block \<in> set blocks \<and> getHours tz (tb_start block) \<noteq> hour \<and>
      tb_start block < currentHourStart tz day hour \<and>
      currentHourStart tz day hour < tb_end block"
  by (auto simp: spanningBlocks_def blocksForCell_def)

lemma blocksForCell_iff:
  "block \<in> set (blocksForCell tz day hour blocks) \<longleftrightarrow>
      block \<in> set blocks \<and> (getHours tz (tb_start block) = hour \<or>
      tb_start block < currentHourStart tz day hour \<and>
      currentHourStart tz day hour < tb_end block)"
  by (auto simp: blocksForCell_def)

text \<open>
  Claim C5, as the code has it in a zone at or east of UTC. A block given to a cell is a
  starting block exactly when the local hour of its start is the cell's hour; this part
  holds in every zone. With an offset from 0 up to 24 hours, it is a spanning block
  exactly when the local hour of its start is not the cell's hour, its start lies strictly
  before the cell's hour on the day the key names, local time, and its end strictly after.
  For a block that starts on the day the key names the condition on the hour follows from
  the other two. A block that runs from 09:00 to 11:00 local time on the day it is filed
  under is starting in the 09:00 cell, spanning in the 10:00 cell, and not among the
  blocks of the 08:00 and 11:00 cells.
\<close>

theorem cell_classification:
  "(block \<in> set (startingBlocksForCell tz day hour blocks) \<longleftrightarrow>
      block \<in> set blocks \<and> getHours tz (tb_start block) = hour) \<and>
   (0 \<le> tz \<and> tz < 1440 \<longrightarrow>
      (block \<in> set (spanningBlocks tz day hour blocks) \<longleftrightarrow>
         block \<in> set blocks \<and> getHours tz (tb_start block) \<noteq> hour \<and>
         localTime tz (tb_start block) < day * msPerDay + hour * msPerHour \<and>
         day * msPerDay + hour * msPerHour < localTime tz (tb_end block))) \<and>
   (0 \<le> tz \<and> tz < 1440 \<and> localDay tz (tb_start block) = day \<longrightarrow>
      (block \<in> set (spanningBlocks tz day hour blocks) \<longleftrightarrow>
         block \<in> set blocks \<and>
         localTime tz (tb_start block) < day * msPerDay + hour * msPerHour \<and>
         day * msPerDay + hour * msPerHour < localTime tz (tb_end block))) \<and>
   (0 \<le> tz \<and> tz < 1440 \<and> block \<in> set blocks \<and>
    localTime tz (tb_start block) = day * msPerDay + 9 * msPerHour \<and>
    localTime tz (tb_end block) = day * msPerDay + 11 * msPerHour \<longrightarrow>
      block \<in> set (startingBlocksForCell tz day 9 blocks) \<and>
      block \<notin> set (spanningBlocks tz day 9 blocks) \<and>
      block \<in> set (spanningBlocks tz day 10 blocks) \<and>
      block \<notin> set (startingBlocksForCell tz day 10 blocks) \<and>
      block \<notin> set (blocksForCell tz day 8 blocks) \<and>
      block \<notin> set (blocksForCell tz day 11 blocks))"
proof -
  have lt: "t < currentHourStart tz day h \<longleftrightarrow>
              localTime tz t < day * msPerDay + h * msPerHour"
    and gt: "currentHourStart tz day h < t \<longleftrightarrow>
              day * msPerDay + h * msPerHour < localTime tz t"
    if "0 \<le> tz \<and> tz < 1440" for t h
    using that before_iff_local[of t "currentHourStart tz day h" tz]
      before_iff_local[of "currentHourStart tz day h" t tz]
      boundary_east_of_utc[of tz day h]
    by simp_all
  have spanning: "block \<in> set (spanningBlocks tz day h blocks) \<longleftrightarrow>
         block \<in> set blocks \<and> getHours tz (tb_start block) \<noteq> h \<and>
         localTime tz (tb_start block) < day * msPerDay + h * msPerHour \<and>
         day * msPerDay + h * msPerHour < localTime tz (tb_end block)"
    if "0 \<le> tz \<and> tz < 1440" for h
    by (simp add: spanningBlocks_iff lt[OF that] gt[OF that])
  have inCell: "block \<in> set (blocksForCell tz day h blocks) \<longleftrightarrow>
         block \<in> set blocks \<and> (getHours tz (tb_start block) = h \<or>
         localTime tz (tb_start block) < day * msPerDay + h * msPerHour \<and>
         day * msPerDay + h * msPerHour < localTime tz (tb_end block))"
    if "0 \<le> tz \<and> tz < 1440" for h
    by (simp add: blocksForCell_iff lt[OF that] gt[OF that])
  have sameDay: "block \<in> set (spanningBlocks tz day hour blocks) \<longleftrightarrow>
         block \<in> set blocks \<and>
         localTime tz (tb_start block) < day * msPerDay + hour * msPerHour \<and>
         day * msPerDay + hour * msPerHour < localTime tz (tb_end block)"
    if e: "0 \<le> tz \<and> tz < 1440 \<and> localDay tz (tb_start block) = day"
  proof -
    have "getHours tz (tb_start block) < hour"
      if "localTime tz (tb_start block) < day * msPerDay + hour * msPerHour"
    proof (rule before_boundary_earlier_hour)
      show "localDay tz (tb_start block) = localDay tz (newDate day)"
        using e by (simp add: localDay_newDate)
      show "tb_start block < currentHourStart tz day hour"
        using e that by (simp add: lt)
    qed
    then show ?thesis using e by (auto simp: spanning)
  qed
  have example: "block \<in> set (startingBlocksForCell tz day 9 blocks) \<and>
      block \<notin> set (spanningBlocks tz day 9 blocks) \<and>
      block \<in> set (spanningBlocks tz day 10 blocks) \<and>
      block \<notin> set (startingBlocksForCell tz day 10 blocks) \<and>
      block \<notin> set (blocksForCell tz day 8 blocks) \<and>
      block \<notin> set (blocksForCell tz day 11 blocks)"
    if a: "0 \<le> tz \<and> tz < 1440 \<and> block \<in> set blocks \<and>
      localTime tz (tb_start block) = day * msPerDay + 9 * msPerHour \<and>
      localTime tz (tb_end block) = day * msPerDay + 11 * msPerHour"
  proof -
    have h: "getHours tz (tb_start block) = 9"
      using a by (intro getHours_local[of tz _ day]) simp_all
    show ?thesis
      using a h by (simp add: startingBlocksForCell_iff spanning inCell)
  qed
  from startingBlocksForCell_iff spanning[of hour] sameDay example show ?thesis by blast
qed

theorem cell_classification_witness:
  "(0::int) \<le> 180 \<and> (180::int) < 1440 \<and>
   localDay 180 (tb_start blockA) = dayKeyOf 2024 1 1 \<and>
   blockA \<in> set [blockA] \<and>
   localTime 180 (tb_start blockA) = dayKeyOf 2024 1 1 * msPerDay + 12 * msPerHour \<and>
   localTime 0 (tb_start blockA) = dayKeyOf 2024 1 1 * msPerDay + 9 * msPerHour \<and>
   localTime 0 (tb_end blockA) = dayKeyOf 2024 1 1 * msPerDay + 11 * msPerHour \<and>
   blockA \<in> set (startingBlocksForCell 0 (dayKeyOf 2024 1 1) 9 [blockA]) \<and>
   blockA \<notin> set (spanningBlocks 0 (dayKeyOf 2024 1 1) 9 [blockA]) \<and>
   blockA \<in> set (spanningBlocks 0 (dayKeyOf 2024 1 1) 10 [blockA]) \<and>
   blockA \<notin> set (startingBlocksForCell 0 (dayKeyOf 2024 1 1) 10 [blockA]) \<and>
   blockA \<notin> set (blocksForCell 0 (dayKeyOf 2024 1 1) 8 [blockA]) \<and>
   blockA \<notin> set (blocksForCell 0 (dayKeyOf 2024 1 1) 11 [blockA]) \<and>
   blockA \<in> set (startingBlocksForCell 180 (dayKeyOf 2024 1 1) 12 [blockA]) \<and>
   blockA \<in> set (spanningBlocks 180 (dayKeyOf 2024 1 1) 13 [blockA]) \<and>
   blockA \<notin> set (spanningBlocks 180 (dayKeyOf 2024 1 1) 14 [blockA])"
proof -
  have f: "localDay 180 (tb_start blockA) = dayKeyOf 2024 1 1 \<and>
   localTime 180 (tb_start blockA) = dayKeyOf 2024 1 1 * msPerDay + 12 * msPerHour \<and>
   localTime 180 (tb_end blockA) = dayKeyOf 2024 1 1 * msPerDay + 14 * msPerHour \<and>
   localTime 0 (tb_start blockA) = dayKeyOf 2024 1 1 * msPerDay + 9 * msPerHour \<and>
   localTime 0 (tb_end blockA) = dayKeyOf 2024 1 1 * msPerDay + 11 * msPerHour \<and>
   getHours 180 (tb_start blockA) = 12 \<and> getHours 0 (tb_start blockA) = 9 \<and>
   localDay 0 (tb_start blockA) = dayKeyOf 2024 1 1"
    by (simp add: localDay_def localTime_def getHours_def blockA_def utc_def dayKeyOf_examples)
  show ?thesis
    using f
      cell_classification[of blockA 0 "dayKeyOf 2024 1 1" 10 "[blockA]"]
      cell_classification[of blockA 180 "dayKeyOf 2024 1 1" 12 "[blockA]"]
      cell_classification[of blockA 180 "dayKeyOf 2024 1 1" 13 "[blockA]"]
      cell_classification[of blockA 180 "dayKeyOf 2024 1 1" 14 "[blockA]"]
    by simp
qed

text \<open>
  Claim C5 as stated fails for a block that is filed under a day but starts on an earlier
  one at the cell's hour: \<open>strayBlock\<close>, filed under 2024-01-02, starts at 10:00 on
  2024-01-01 and ends at 11:00 on 2024-01-02. In the 10:00 cell of 2024-01-02 its start is
  before the boundary and its end after, and it is not a spanning block (it is shown as a
  starting block).
\<close>

theorem spanning_iff_counterexample:
  "strayBlock \<in> set (cellTimeBlocks (dayKeyOf 2024 1 2) [blockA, strayBlock]) \<and>
   tb_start strayBlock < currentHourStart 0 (dayKeyOf 2024 1 2) 10 \<and>
   currentHourStart 0 (dayKeyOf 2024 1 2) 10 < tb_end strayBlock \<and>
   strayBlock \<notin> set (spanningBlocks 0 (dayKeyOf 2024 1 2) 10
                       (cellTimeBlocks (dayKeyOf 2024 1 2) [blockA, strayBlock]))"
  by (simp add: cellTimeBlocks_def spanningBlocks_def blocksForCell_def currentHourStart_def
      setHours4_def newDate_def localDay_def localTime_def getHours_def
      strayBlock_def blockA_def utc_def dayKeyOf_def)

text \<open>
  West of UTC the cell computes its boundary a day early, since \<open>new Date(day)\<close> is
  midnight UTC and lies on the local day before: five hours west, \<open>blockW\<close> is
  starting in the 09:00 cell of its day and is not among the blocks of the 10:00 cell.
\<close>

lemma west_of_utc_cell_is_a_day_early:
  "localTime (- 300) (tb_start blockW) = utc (dayKeyOf 2024 1 1) 9 0 0 \<and>
   localTime (- 300) (tb_end blockW) = utc (dayKeyOf 2024 1 1) 11 0 0 \<and>
   localTime (- 300) (currentHourStart (- 300) (dayKeyOf 2024 1 1) 10) =
     utc (dayKeyOf 2023 12 31) 10 0 0 \<and>
   blockW \<in> set (startingBlocksForCell (- 300) (dayKeyOf 2024 1 1) 9 [blockW]) \<and>
   blockW \<notin> set (blocksForCell (- 300) (dayKeyOf 2024 1 1) 10 [blockW])"
  by (simp add: startingBlocksForCell_def blocksForCell_def isFirstOccurrence_def blockW_def
      date_defs)

section \<open>Drops\<close>

text \<open>
  Claim C3. When a block \<open>A\<close> is dropped on a different block \<open>B\<close>, afterwards \<open>A\<close>
  starts where \<open>B\<close> started and \<open>B\<close> where \<open>A\<close> started, each is filed under the
  other's former day, and each ends at its new start plus its own former duration, so
  that both durations are unchanged.
\<close>

theorem swap_exchanges_positions:
  assumes "findBlock a (timeBlocks state) = Some A"
    and "findBlock b (timeBlocks state) = Some B"
    and "a \<noteq> b" and "od_sortable d"
    and "state' = handleDragEnd tz
           \<lparr> active_id = a, over = Some \<lparr> over_id = b, over_data = Some d \<rparr> \<rparr> state"
  shows "\<exists>A' B'. findBlock a (timeBlocks state') = Some A' \<and>
                 findBlock b (timeBlocks state') = Some B' \<and>
                 tb_start A' = tb_start B \<and> tb_start B' = tb_start A \<and>
                 tb_day A' = tb_day B \<and> tb_day B' = tb_day A \<and>
                 tb_end A' = tb_start B + (tb_end A - tb_start A) \<and>
                 tb_end B' = tb_start A + (tb_end B - tb_start B) \<and>
                 tb_end A' - tb_start A' = tb_end A - tb_start A \<and>
                 tb_end B' - tb_start B' = tb_end B - tb_start B"
  using assms(1,2,3)
  by (simp add: assms(5) handleDragEnd_swap[OF assms(1-4)] findBlock_updateTimeBlock
      spread_reposition)

theorem swap_exchanges_positions_witness:
  "findBlock ''a'' (timeBlocks twoBlocks) = Some blockA \<and>
   findBlock ''b'' (timeBlocks twoBlocks) = Some blockB \<and>
   ''a'' \<noteq> ''b'' \<and> od_sortable sortableData \<and>
   (\<exists>A' B'.
      findBlock ''a'' (timeBlocks (handleDragEnd 0 (dropOnBlock ''a'' ''b'') twoBlocks)) = Some A' \<and>
      findBlock ''b'' (timeBlocks (handleDragEnd 0 (dropOnBlock ''a'' ''b'') twoBlocks)) = Some B' \<and>
      tb_start A' = utc (dayKeyOf 2024 1 2) 14 0 0 \<and>
      tb_start B' = utc (dayKeyOf 2024 1 1) 9 0 0 \<and>
      tb_day A' = dayKeyOf 2024 1 2 \<and> tb_day B' = dayKeyOf 2024 1 1 \<and>
      tb_end A' = utc (dayKeyOf 2024 1 2) 16 0 0 \<and>
      tb_end B' = utc (dayKeyOf 2024 1 1) 10 0 0 \<and>
      tb_end A' - tb_start A' = 2 * msPerHour \<and> tb_end B' - tb_start B' = 1 * msPerHour)"
proof -
  have a: "findBlock ''a'' (timeBlocks twoBlocks) = Some blockA"
    by (simp add: findBlock_def twoBlocks_def blockA_def)
  have b: "findBlock ''b'' (timeBlocks twoBlocks) = Some blockB"
    by (simp add: findBlock_def twoBlocks_def blockA_def blockB_def)
  have n: "''a'' \<noteq> ''b''" by simp
  have s: "od_sortable sortableData" by (simp add: sortableData_def)
  have e: "handleDragEnd 0 (dropOnBlock ''a'' ''b'') twoBlocks =
     handleDragEnd 0 \<lparr> active_id = ''a'',
        over = Some \<lparr> over_id = ''b'', over_data = Some sortableData \<rparr> \<rparr> twoBlocks"
    by (simp add: dropOnBlock_def)
  show ?thesis
    using a b n s swap_exchanges_positions[OF a b n s e]
    by (simp add: blockA_def blockB_def utc_def dayKeyOf_def)
qed

text \<open>
  Claim C7. A drag that ends on the dragged block itself (the target has the id of the
  dragged block and carries no day or no hour, as the data of a sortable block does)
  leaves the store unchanged.
\<close>

theorem drop_on_itself_changes_nothing:
  assumes "over event = Some ov" and "over_id ov = active_id event"
    and "case over_data ov of None \<Rightarrow> True | Some d \<Rightarrow> od_day d = None \<or> od_hour d = None"
  shows "handleDragEnd tz event state = state"
  using assms by (auto simp: handleDragEnd_def split: option.splits)

theorem drop_on_itself_changes_nothing_witness:
  "over (dropOnBlock ''a'' ''a'') = Some \<lparr> over_id = ''a'', over_data = Some sortableData \<rparr> \<and>
   over_id \<lparr> over_id = ''a'', over_data = Some sortableData \<rparr> = active_id (dropOnBlock ''a'' ''a'') \<and>
   od_day sortableData = None \<and>
   handleDragEnd 0 (dropOnBlock ''a'' ''a'') twoBlocks = twoBlocks"
proof -
  have o: "over (dropOnBlock ''a'' ''a'') = Some \<lparr> over_id = ''a'', over_data = Some sortableData \<rparr>"
    by (simp add: dropOnBlock_def)
  have i: "over_id \<lparr> over_id = ''a'', over_data = Some sortableData \<rparr> =
           active_id (dropOnBlock ''a'' ''a'')"
    by (simp add: dropOnBlock_def)
  have d: "case over_data \<lparr> over_id = ''a'', over_data = Some sortableData \<rparr> of
             None \<Rightarrow> True | Some d \<Rightarrow> od_day d = None \<or> od_hour d = None"
    by (simp add: sortableData_def)
  show ?thesis
    using o i drop_on_itself_changes_nothing[OF o i d, of 0 twoBlocks]
    by (simp add: sortableData_def)
qed

text \<open>
  What a drop on a cell does establish. The block found afterwards under its id starts
  on the instant the cell takes as its hour boundary, at minute 0 and second 0 (and at the
  cell's hour when that is one of 0..23); it is filed under the cell's day key and keeps
  its id, title, color and task id. Its end is the new start plus its former duration
  whenever that instant lies on the same local day as the new start. In a zone at or east
  of UTC the boundary is the cell's hour on the day the key names.
\<close>

lemma cell_move_result:
  assumes "findBlock a (timeBlocks state) = Some A"
    and "od_day d = Some day" and "od_hour d = Some hour" and "a = c \<or> \<not> od_sortable d"
  shows "\<exists>A'. findBlock a (timeBlocks (handleDragEnd tz
                  \<lparr> active_id = a, over = Some \<lparr> over_id = c, over_data = Some d \<rparr> \<rparr> state))
                = Some A' \<and>
     tb_start A' = currentHourStart tz day hour \<and>
     getMinutes tz (tb_start A') = 0 \<and> getSeconds tz (tb_start A') = 0 \<and>
     (0 \<le> hour \<and> hour < 24 \<longrightarrow> getHours tz (tb_start A') = hour) \<and>
     (0 \<le> tz \<and> tz < 1440 \<longrightarrow>
        localTime tz (tb_start A') = day * msPerDay + hour * msPerHour) \<and>
     (localDay tz (tb_start A' + (tb_end A - tb_start A)) = localDay tz (tb_start A') \<longrightarrow>
        tb_end A' = tb_start A' + (tb_end A - tb_start A)) \<and>
     tb_day A' = day \<and> tb_id A' = tb_id A \<and> tb_title A' = tb_title A \<and>
     tb_color A' = tb_color A \<and> tb_taskId A' = tb_taskId A"
proof -
  let ?s = "currentHourStart tz day hour"
  let ?t = "?s + (tb_end A - tb_start A)"
  let ?e = "if getDate tz ?t \<noteq> getDate tz ?s then setHours tz ?t 23 59 59 else ?t"
  let ?A' = "A\<lparr> tb_start := ?s, tb_end := ?e, tb_day := day \<rparr>"
  have f: "findBlock a (timeBlocks (handleDragEnd tz
             \<lparr> active_id = a, over = Some \<lparr> over_id = c, over_data = Some d \<rparr> \<rparr> state)) = Some ?A'"
    using assms(1)
    by (simp add: handleDragEnd_cell[OF assms] findBlock_updateTimeBlock spread_reposition)
  have h: "0 \<le> hour \<and> hour < 24 \<longrightarrow> getHours tz ?s = hour"
    by (simp add: getHours_currentHourStart)
  have l: "0 \<le> tz \<and> tz < 1440 \<longrightarrow> localTime tz ?s = day * msPerDay + hour * msPerHour"
    by (simp add: currentHourStart_def localTime_setHours4 localDay_newDate)
  have e: "localDay tz ?t = localDay tz ?s \<longrightarrow> ?e = ?t"
    by (simp add: getDate_def)
  show ?thesis
    using f h l e
    by (simp add: getMinutes_currentHourStart getSeconds_currentHourStart)
qed

lemma cell_move_result_example:
  "findBlock ''a'' (timeBlocks oneBlock) = Some blockA \<and>
   od_day (cellData (dayKeyOf 2024 1 2) 14) = Some (dayKeyOf 2024 1 2) \<and>
   od_hour (cellData (dayKeyOf 2024 1 2) 14) = Some 14 \<and>
   \<not> od_sortable (cellData (dayKeyOf 2024 1 2) 14) \<and>
   (0::int) \<le> 14 \<and> (14::int) < 24 \<and> (0::int) \<le> 0 \<and> (0::int) < 1440 \<and>
   localDay 0 (utc (dayKeyOf 2024 1 2) 14 0 0 + (tb_end blockA - tb_start blockA)) =
     localDay 0 (utc (dayKeyOf 2024 1 2) 14 0 0) \<and>
   (\<exists>A'. findBlock ''a''
            (timeBlocks (handleDragEnd 0 (dropOnCell ''a'' (dayKeyOf 2024 1 2) 14) oneBlock)) = Some A' \<and>
      tb_start A' = utc (dayKeyOf 2024 1 2) 14 0 0 \<and>
      tb_end A' = utc (dayKeyOf 2024 1 2) 16 0 0 \<and>
      tb_day A' = dayKeyOf 2024 1 2 \<and>
      getHours 0 (tb_start A') = 14 \<and> getMinutes 0 (tb_start A') = 0 \<and>
      getSeconds 0 (tb_start A') = 0 \<and>
      tb_title A' = utf16 ''Algebra'' \<and> tb_color A' = Some ''bg-red-200'' \<and> tb_taskId A' = None)"
proof -
  have a: "findBlock ''a'' (timeBlocks oneBlock) = Some blockA"
    by (simp add: findBlock_def oneBlock_def blockA_def)
  have d: "od_day (cellData (dayKeyOf 2024 1 2) 14) = Some (dayKeyOf 2024 1 2)"
    by (simp add: cellData_def)
  have h: "od_hour (cellData (dayKeyOf 2024 1 2) 14) = Some 14"
    by (simp add: cellData_def)
  have s: "''a'' = ''cell'' \<or> \<not> od_sortable (cellData (dayKeyOf 2024 1 2) 14)"
    by (simp add: cellData_def)
  have c: "currentHourStart 0 (dayKeyOf 2024 1 2) 14 = utc (dayKeyOf 2024 1 2) 14 0 0"
    by (simp add: date_defs)
  have l: "localDay 0 (utc (dayKeyOf 2024 1 2) 14 0 0 + (tb_end blockA - tb_start blockA)) =
     localDay 0 (utc (dayKeyOf 2024 1 2) 14 0 0)"
    by (simp add: blockA_def date_defs)
  have u: "utc (dayKeyOf 2024 1 2) 14 0 0 + (tb_end blockA - tb_start blockA) =
           utc (dayKeyOf 2024 1 2) 16 0 0"
    by (simp add: blockA_def utc_def)
  show ?thesis
    using a d h s l cell_move_result[OF a d h s, of 0]
    by (auto simp: dropOnCell_def c u blockA_def utc_def dayKeyOf_examples
        localDay_def localTime_def)
qed

text \<open>
  Claim C4 fails in the code on two inputs. At offset 0, \<open>blockA\<close>, two hours long,
  dropped on the 22:00 cell of 2024-01-03 starts there at 22:00 and would end at midnight;
  the stored end is 23:59:59 on 2024-01-04, not on the day of the new start, by the slip
  in the clamp that the last section shows. Five hours west of UTC, \<open>blockA\<close> dropped
  on the 14:00 cell of 2024-01-02 is filed under 2024-01-02 and starts at 14:00 local time
  on 2024-01-01: \<open>new Date(day)\<close> is midnight UTC, 19:00 of the day before on the local
  clock, and \<open>setHours\<close> keeps that day. (\<open>utc\<close> of a day and a time, read as a local
  time, is that wall-clock time.)
\<close>

theorem cell_move_off_target:
  "findBlock ''a'' (timeBlocks (handleDragEnd 0 (dropOnCell ''a'' (dayKeyOf 2024 1 3) 22) oneBlock)) =
     Some (blockA\<lparr> tb_start := utc (dayKeyOf 2024 1 3) 22 0 0,
                   tb_end := utc (dayKeyOf 2024 1 4) 23 59 59,
                   tb_day := dayKeyOf 2024 1 3 \<rparr>) \<and>
   utc (dayKeyOf 2024 1 4) 23 59 59 \<noteq> utc (dayKeyOf 2024 1 3) 23 59 59 \<and>
   findBlock ''a''
       (timeBlocks (handleDragEnd (- 300) (dropOnCell ''a'' (dayKeyOf 2024 1 2) 14) oneBlock)) =
     Some (blockA\<lparr> tb_start := utc (dayKeyOf 2024 1 1) 19 0 0,
                   tb_end := utc (dayKeyOf 2024 1 1) 21 0 0,
                   tb_day := dayKeyOf 2024 1 2 \<rparr>) \<and>
   localTime (- 300) (utc (dayKeyOf 2024 1 1) 19 0 0) = utc (dayKeyOf 2024 1 1) 14 0 0 \<and>
   utc (dayKeyOf 2024 1 1) 14 0 0 \<noteq> utc (dayKeyOf 2024 1 2) 14 0 0"
  by (simp add: handleDragEnd_def updateTimeBlock_def spread_reposition findBlock_def
      oneBlock_def blockA_def dropOnCell_def cellData_def Let_def date_defs)

text \<open>
  Claim C2, as the code has it. A drop on another block leaves the duration of both blocks
  as it was. A drop on a cell leaves the duration of the moved block as it was whenever
  the new start plus the duration lies on the same local day as the new start.
\<close>

theorem move_keeps_duration:
  assumes "findBlock a (timeBlocks state) = Some A"
  shows
   "(findBlock b (timeBlocks state) = Some B \<and> a \<noteq> b \<and> od_sortable d \<longrightarrow>
      (\<exists>A' B'.
         findBlock a (timeBlocks (handleDragEnd tz
            \<lparr> active_id = a, over = Some \<lparr> over_id = b, over_data = Some d \<rparr> \<rparr> state)) = Some A' \<and>
         findBlock b (timeBlocks (handleDragEnd tz
            \<lparr> active_id = a, over = Some \<lparr> over_id = b, over_data = Some d \<rparr> \<rparr> state)) = Some B' \<and>
         tb_end A' - tb_start A' = tb_end A - tb_start A \<and>
         tb_end B' - tb_start B' = tb_end B - tb_start B)) \<and>
    (od_day d' = Some day \<and> od_hour d' = Some hour \<and> (a = c \<or> \<not> od_sortable d') \<and>
     localDay tz (currentHourStart tz day hour + (tb_end A - tb_start A)) =
       localDay tz (currentHourStart tz day hour) \<longrightarrow>
      (\<exists>A'.
         findBlock a (timeBlocks (handleDragEnd tz
            \<lparr> active_id = a, over = Some \<lparr> over_id = c, over_data = Some d' \<rparr> \<rparr> state)) = Some A' \<and>
         tb_end A' - tb_start A' = tb_end A - tb_start A))"
proof (intro conjI impI)
  assume h: "findBlock b (timeBlocks state) = Some B \<and> a \<noteq> b \<and> od_sortable d"
  then have B: "findBlock b (timeBlocks state) = Some B" and n: "a \<noteq> b" and s: "od_sortable d"
    by simp_all
  show "\<exists>A' B'.
         findBlock a (timeBlocks (handleDragEnd tz
            \<lparr> active_id = a, over = Some \<lparr> over_id = b, over_data = Some d \<rparr> \<rparr> state)) = Some A' \<and>
         findBlock b (timeBlocks (handleDragEnd tz
            \<lparr> active_id = a, over = Some \<lparr> over_id = b, over_data = Some d \<rparr> \<rparr> state)) = Some B' \<and>
         tb_end A' - tb_start A' = tb_end A - tb_start A \<and>
         tb_end B' - tb_start B' = tb_end B - tb_start B"
    using assms B n
    by (simp add: handleDragEnd_swap[OF assms B n s] findBlock_updateTimeBlock spread_reposition)
next
  assume h: "od_day d' = Some day \<and> od_hour d' = Some hour \<and> (a = c \<or> \<not> od_sortable d') \<and>
     localDay tz (currentHourStart tz day hour + (tb_end A - tb_start A)) =
       localDay tz (currentHourStart tz day hour)"
  then have day: "od_day d' = Some day" and hour: "od_hour d' = Some hour"
    and c: "a = c \<or> \<not> od_sortable d'" by simp_all
  from h have "getDate tz (currentHourStart tz day hour + (tb_end A - tb_start A)) =
       getDate tz (currentHourStart tz day hour)"
    by (simp add: getDate_def)
  then show "\<exists>A'.
         findBlock a (timeBlocks (handleDragEnd tz
            \<lparr> active_id = a, over = Some \<lparr> over_id = c, over_data = Some d' \<rparr> \<rparr> state)) = Some A' \<and>
         tb_end A' - tb_start A' = tb_end A - tb_start A"
    using assms
    by (simp add: handleDragEnd_cell[OF assms day hour c] findBlock_updateTimeBlock
        spread_reposition)
qed

theorem move_keeps_duration_witness:
  "findBlock ''a'' (timeBlocks twoBlocks) = Some blockA \<and>
   findBlock ''b'' (timeBlocks twoBlocks) = Some blockB \<and> ''a'' \<noteq> ''b'' \<and>
   od_sortable sortableData \<and>
   od_day (cellData (dayKeyOf 2024 1 3) 14) = Some (dayKeyOf 2024 1 3) \<and>
   od_hour (cellData (dayKeyOf 2024 1 3) 14) = Some 14 \<and>
   \<not> od_sortable (cellData (dayKeyOf 2024 1 3) 14) \<and>
   localDay 0 (currentHourStart 0 (dayKeyOf 2024 1 3) 14 + (tb_end blockA - tb_start blockA)) =
     localDay 0 (currentHourStart 0 (dayKeyOf 2024 1 3) 14) \<and>
   (\<exists>A' B'.
      findBlock ''a'' (timeBlocks (handleDragEnd 0 (dropOnBlock ''a'' ''b'') twoBlocks)) = Some A' \<and>
      findBlock ''b'' (timeBlocks (handleDragEnd 0 (dropOnBlock ''a'' ''b'') twoBlocks)) = Some B' \<and>
      tb_end A' - tb_start A' = 2 * msPerHour \<and> tb_end B' - tb_start B' = 1 * msPerHour) \<and>
   (\<exists>A'.
      findBlock ''a'' (timeBlocks (handleDragEnd 0 (dropOnCell ''a'' (dayKeyOf 2024 1 3) 14) twoBlocks))
        = Some A' \<and>
      tb_end A' - tb_start A' = 2 * msPerHour)"
proof -
  have a: "findBlock ''a'' (timeBlocks twoBlocks) = Some blockA"
    by (simp add: findBlock_def twoBlocks_def blockA_def)
  have b: "findBlock ''b'' (timeBlocks twoBlocks) = Some blockB"
    by (simp add: findBlock_def twoBlocks_def blockA_def blockB_def)
  have c: "od_sortable sortableData \<and>
           od_day (cellData (dayKeyOf 2024 1 3) 14) = Some (dayKeyOf 2024 1 3) \<and>
           od_hour (cellData (dayKeyOf 2024 1 3) 14) = Some 14 \<and>
           \<not> od_sortable (cellData (dayKeyOf 2024 1 3) 14)"
    by (simp add: sortableData_def cellData_def)
  have d: "localDay 0 (currentHourStart 0 (dayKeyOf 2024 1 3) 14 + (tb_end blockA - tb_start blockA)) =
     localDay 0 (currentHourStart 0 (dayKeyOf 2024 1 3) 14)"
    by (simp add: blockA_def date_defs)
  have l: "tb_end blockA - tb_start blockA = 2 * msPerHour"
          "tb_end blockB - tb_start blockB = 1 * msPerHour"
    by (simp_all add: blockA_def blockB_def utc_def)
  show ?thesis
    using a b c d
      move_keeps_duration[OF a, of "''b''" blockB sortableData 0
        "cellData (dayKeyOf 2024 1 3) 14" "dayKeyOf 2024 1 3" 14 "''cell''"]
    by (simp add: dropOnBlock_def dropOnCell_def l)
qed

text \<open>
  Claim C2 as stated fails for a move whose end would cross midnight: \<open>blockA\<close>, two
  hours long, dropped on the 23:00 cell of 2024-01-02 does not keep its two hours.
\<close>

theorem move_keeps_duration_counterexample:
  "findBlock ''a'' (timeBlocks oneBlock) = Some blockA \<and>
   tb_end blockA - tb_start blockA = 2 * msPerHour \<and>
   findBlock ''a'' (timeBlocks (handleDragEnd 0 (dropOnCell ''a'' (dayKeyOf 2024 1 2) 23) oneBlock)) =
     Some (blockA\<lparr> tb_start := utc (dayKeyOf 2024 1 2) 23 0 0,
                   tb_end := utc (dayKeyOf 2024 1 3) 23 59 59,
                   tb_day := dayKeyOf 2024 1 2 \<rparr>) \<and>
   utc (dayKeyOf 2024 1 3) 23 59 59 - utc (dayKeyOf 2024 1 2) 23 0 0 \<noteq> 2 * msPerHour"
  by (simp add: handleDragEnd_def updateTimeBlock_def spread_reposition findBlock_def
      oneBlock_def blockA_def dropOnCell_def cellData_def Let_def date_defs)

section \<open>End after start\<close>

text \<open>
  What the handlers do preserve. If every block of the store ends after it starts, the
  same holds after \<open>handleAdd\<close> with a duration of at least one hour, which returns a
  store, and after \<open>handleDragEnd\<close> for any event.
\<close>

lemma end_after_start_preserved:
  assumes "\<forall>block\<in>set (timeBlocks state). tb_start block < tb_end block"
  shows "(1 \<le> d \<longrightarrow>
            (\<exists>state'. handleAdd tz newId day hour title (Some d) color state = Inr state' \<and>
               (\<forall>block\<in>set (timeBlocks state'). tb_start block < tb_end block))) \<and>
         (\<forall>block\<in>set (timeBlocks (handleDragEnd tz event state)). tb_start block < tb_end block)"
proof -
  have "\<exists>state'. handleAdd tz newId day hour title (Some d) color state = Inr state' \<and>
               (\<forall>block\<in>set (timeBlocks state'). tb_start block < tb_end block)" if d: "1 \<le> d"
  proof (cases "trim title = []")
    case True
    with assms show ?thesis by (simp add: handleAdd_def)
  next
    case False
    let ?s = "currentHourStart tz day hour"
    have "?s < ?s + d * msPerHour" using d by simp
    then have "?s < (if getDate tz (?s + d * msPerHour) \<noteq> getDate tz ?s
                     then setHours tz (?s + d * msPerHour) 23 59 59 else ?s + d * msPerHour)"
      by (rule clamp_after)
    with assms show ?thesis by (auto simp: handleAdd_block[OF False])
  qed
  with ordered_handleDragEnd[OF assms] show ?thesis by blast
qed

lemma end_after_start_preserved_example:
  "list_all (\<lambda>block. tb_start block < tb_end block) (timeBlocks oneBlock) \<and> (1::int) \<le> 3 \<and>
   (\<exists>state'. handleAdd 0 ''n'' (dayKeyOf 2024 1 1) 23 (utf16 ''Study'') (Some 3) ''bg-red-200'' oneBlock
                = Inr state' \<and>
      list_all (\<lambda>block. tb_start block < tb_end block) (timeBlocks state')) \<and>
   list_all (\<lambda>block. tb_start block < tb_end block)
     (timeBlocks (handleDragEnd 0 (dropOnCell ''a'' (dayKeyOf 2024 1 2) 23) oneBlock))"
proof -
  have i: "\<forall>block\<in>set (timeBlocks oneBlock). tb_start block < tb_end block"
    by (simp add: oneBlock_def blockA_def utc_def)
  show ?thesis
    using i end_after_start_preserved[OF i, of 3 0 "''n''" "dayKeyOf 2024 1 1" 23 "utf16 ''Study''"
        "''bg-red-200''" "dropOnCell ''a'' (dayKeyOf 2024 1 2) 23"]
    by (simp add: list_all_iff)
qed

text \<open>
  Claim C6 fails in the code for a create with a duration that is not positive. The dialog
  keeps what \<open>parseInt\<close> read from the number field, and \<open>handleAdd\<close> checks the
  title only: with the duration 0 the block added to the empty store ends when it starts,
  and with the duration -5 it ends five hours before it starts.
\<close>

theorem create_with_nonpositive_duration:
  "timeBlocks emptyStore = [] \<and>
   handleAdd 0 ''n'' (dayKeyOf 2024 1 1) 9 (utf16 ''Study'') (Some 0) ''bg-red-200'' emptyStore =
     Inr \<lparr> tasks = [],
           timeBlocks = [\<lparr> tb_id = ''n'', tb_taskId = None, tb_title = utf16 ''Study'',
              tb_start = utc (dayKeyOf 2024 1 1) 9 0 0, tb_end = utc (dayKeyOf 2024 1 1) 9 0 0,
              tb_day = dayKeyOf 2024 1 1, tb_color = Some ''bg-red-200'' \<rparr>],
           studySessions = [] \<rparr> \<and>
   \<not> utc (dayKeyOf 2024 1 1) 9 0 0 < utc (dayKeyOf 2024 1 1) 9 0 0 \<and>
   handleAdd 0 ''n'' (dayKeyOf 2024 1 1) 9 (utf16 ''Study'') (Some (- 5)) ''bg-red-200'' emptyStore =
     Inr \<lparr> tasks = [],
           timeBlocks = [\<lparr> tb_id = ''n'', tb_taskId = None, tb_title = utf16 ''Study'',
              tb_start = utc (dayKeyOf 2024 1 1) 9 0 0, tb_end = utc (dayKeyOf 2024 1 1) 4 0 0,
              tb_day = dayKeyOf 2024 1 1, tb_color = Some ''bg-red-200'' \<rparr>],
           studySessions = [] \<rparr> \<and>
   \<not> utc (dayKeyOf 2024 1 1) 9 0 0 < utc (dayKeyOf 2024 1 1) 4 0 0"
  by (simp add: handleAdd_def addTimeBlock_def emptyStore_def trim_def isWhiteSpace_def utf16_def
      Let_def date_defs)

section \<open>The end-of-day clamp\<close>

text \<open>
  Claim C1 is not what the code does. When the end falls on another day of the month
  than the start, \<open>setHours(23, 59, 59)\<close> is applied to the end, which by then lies on
  the later day: the stored end is 23:59:59 of the day the unclamped end falls on. A
  block created at 23:00 on 2024-01-01 for three hours ends at 23:59:59 on 2024-01-02,
  and \<open>blockB\<close>, one hour long, dropped on the 23:00 cell of 2024-01-01 ends at
  23:59:59 on 2024-01-02 as well.
\<close>

theorem clamp_ends_on_next_day:
  "handleAdd 0 ''n'' (dayKeyOf 2024 1 1) 23 (utf16 ''Study'') (Some 3) ''bg-red-200'' emptyStore =
     Inr \<lparr> tasks = [],
           timeBlocks = [\<lparr> tb_id = ''n'', tb_taskId = None, tb_title = utf16 ''Study'',
              tb_start = utc (dayKeyOf 2024 1 1) 23 0 0,
              tb_end = utc (dayKeyOf 2024 1 2) 23 59 59,
              tb_day = dayKeyOf 2024 1 1, tb_color = Some ''bg-red-200'' \<rparr>],
           studySessions = [] \<rparr> \<and>
   utc (dayKeyOf 2024 1 2) 23 59 59 \<noteq> utc (dayKeyOf 2024 1 1) 23 59 59 \<and>
   findBlock ''b'' (timeBlocks (handleDragEnd 0 (dropOnCell ''b'' (dayKeyOf 2024 1 1) 23) twoBlocks)) =
     Some (blockB\<lparr> tb_start := utc (dayKeyOf 2024 1 1) 23 0 0,
                   tb_end := utc (dayKeyOf 2024 1 2) 23 59 59,
                   tb_day := dayKeyOf 2024 1 1 \<rparr>)"
  by (simp add: handleAdd_def addTimeBlock_def emptyStore_def trim_def isWhiteSpace_def utf16_def
      handleDragEnd_def updateTimeBlock_def spread_reposition findBlock_def
      twoBlocks_def blockA_def blockB_def dropOnCell_def cellData_def Let_def date_defs)

end
